theory Spec2Isabelle
  imports Main "HOL-Library.Multiset"
begin

section \<open>Pipeline failure data (tasks/libs/pipeline/data.py)\<close>

subsection \<open>Patterns\<close>

text \<open>
  Every pattern compiled in the module is a plain sequence of items, each item a
  character class (a literal character, \<open>.\<close> or \<open>[0-9]\<close>) taken once, or under \<open>*\<close>
  or \<open>+\<close>; there is no alternation and no group. A pattern is therefore a list of
  such items. \<open>.\<close> matches every character but the newline.
\<close>

datatype cclass = Lit char | Dot | Digit

datatype quant = One | Star | Plus

type_synonym pattern = "(cclass \<times> quant) list"

fun cmatch :: "cclass \<Rightarrow> char \<Rightarrow> bool" where
  "cmatch (Lit a) c = (a = c)"
| "cmatch Dot c = (c \<noteq> CHR 0x0A)"
| "cmatch Digit c = (c \<in> set ''0123456789'')"

text \<open>
  \<open>pmatch full p s\<close>: the pattern matches at the start of \<open>s\<close>; with \<open>full\<close> the
  match has to end where \<open>s\<close> ends.
\<close>

fun pmatch :: "bool \<Rightarrow> pattern \<Rightarrow> string \<Rightarrow> bool" where
  "pmatch full [] s = (full \<longrightarrow> s = [])"
| "pmatch full ((cl, One) # p) [] = False"
| "pmatch full ((cl, One) # p) (c # cs) = (cmatch cl c \<and> pmatch full p cs)"
| "pmatch full ((cl, Star) # p) [] = pmatch full p []"
| "pmatch full ((cl, Star) # p) (c # cs) =
     (pmatch full p (c # cs) \<or> (cmatch cl c \<and> pmatch full ((cl, Star) # p) cs))"
| "pmatch full ((cl, Plus) # p) [] = False"
| "pmatch full ((cl, Plus) # p) (c # cs) = (cmatch cl c \<and> pmatch full ((cl, Star) # p) cs)"

text \<open>\<open>regex.fullmatch(s)\<close> and \<open>regex.search(s)\<close>, as truth values.\<close>

definition fullmatch :: "pattern \<Rightarrow> string \<Rightarrow> bool" where
  "fullmatch p s = pmatch True p s"

fun search :: "pattern \<Rightarrow> string \<Rightarrow> bool" where
  "search p [] = pmatch False p []"
| "search p (c # cs) = (pmatch False p (c # cs) \<or> search p cs)"

definition lit :: "string \<Rightarrow> pattern" where
  "lit s = map (\<lambda>c. (Lit c, One)) s"

subsection \<open>Failure types and reasons\<close>

text \<open>
  \<open>FailedJobType\<close> and \<open>FailedJobReason\<close> are imported from \<open>tasks.libs.types.types\<close>;
  the members below are the ones this module names.
\<close>

datatype FailedJobType = JOB_FAILURE | INFRA_FAILURE | BRIDGE_FAILURE

datatype FailedJobReason =
  RUNNER | GITLAB | EC2_SPOT | E2E_INFRA_FAILURE | FAILED_BRIDGE_JOB | FAILED_JOB_SCRIPT

text \<open>
  \<open>FailedJobReason.get_infra_failure_mapping()\<close> is a table of the imported module: it
  is a parameter of the functions that read it.
\<close>

type_synonym infra_failure_mapping = "string \<rightharpoonup> FailedJobReason"

text \<open>
  Modelled from the spec: \<open>FailedJobReason.from_gitlab_job_failure_reason\<close> is not in
  this module. The spec (4.1, 4.3 step 2) makes it the lookup of the platform code in the
  mapping; the caller only reaches it with a code that is a key of the mapping, and
  \<open>GITLAB\<close> stands for the result on any other code.
\<close>

definition from_gitlab_job_failure_reason ::
  "infra_failure_mapping \<Rightarrow> string \<Rightarrow> FailedJobReason" where
  "from_gitlab_job_failure_reason mapping code =
     (case mapping code of Some r \<Rightarrow> r | None \<Rightarrow> GITLAB)"

subsection \<open>The table of infrastructure failure logs\<close>

definition infra_failure_logs :: "(pattern \<times> FailedJobReason) list" where
  "infra_failure_logs =
   [ (lit ''no basic auth credentials ('' @ [(Dot, Star)] @ lit '')'', RUNNER),
     (lit ''net/http: TLS handshake timeout ('' @ [(Dot, Star)] @ lit '')'', RUNNER),
     (lit ''Docker runner job start script failed'', RUNNER),
     (lit ''A disposable runner accepted this job, while it shouldn'' @ [(Lit (CHR 0x27), One)]
        @ lit ''t have. Runners are meant to run just one job and be terminated.'', RUNNER),
     (lit ''WARNING: Failed to pull image with policy '' @ [(Lit (CHR 0x22), One)]
        @ lit ''always'' @ [(Lit (CHR 0x22), One)] @ lit '':'' @ [(Dot, Star)]
        @ lit ''('' @ [(Dot, Star)] @ lit '')'', RUNNER),
     (lit (''Job failed (system failure): prepare environment: waiting for pod running: ''
        @ ''timed out waiting for pod to start''), RUNNER),
     (lit (''Job failed (system failure): prepare environment: setting up build pod: ''
        @ ''Internal error occurred: failed calling webhook''), RUNNER),
     (lit ''fatal: unable to access '' @ [(Lit (CHR 0x27), One)] @ [(Dot, Star)]
        @ [(Lit (CHR 0x27), One)] @ lit '': The requested URL returned error: 5''
        @ [(Dot, One), (Dot, One)], GITLAB),
     (lit ''Failed to allocate end to end test EC2 Spot instance after '' @ [(Digit, Plus)]
        @ lit '' attempts'', EC2_SPOT),
     (lit ''Connection to '' @ [(Digit, Plus)] @ lit ''.'' @ [(Digit, Plus)] @ lit ''.''
        @ [(Digit, Plus)] @ lit ''.'' @ [(Digit, Plus)] @ lit '' closed by remote host.'',
      EC2_SPOT),
     (lit ''E2E INTERNAL ERROR'', E2E_INFRA_FAILURE) ]"

subsection \<open>Jobs\<close>

text \<open>
  A job of a pipeline is a \<open>ProjectJob\<close> or a \<open>ProjectPipelineBridge\<close>; the module reads
  the attributes below. \<open>created_at\<close> is the sort key of the attempts: a timestamp,
  which the sort compares in its total order, here a natural number. A pipeline gives
  its jobs and its bridges as two lists.
\<close>

datatype job_class = ProjectJob | ProjectPipelineBridge

record job =
  j_class :: job_class
  j_id :: int
  j_name :: string
  j_stage :: string
  j_status :: string
  j_tag_list :: "string list"
  j_allow_failure :: bool
  j_web_url :: string
  j_created_at :: nat
  j_failure_reason :: "string option"

record pipeline =
  p_sha :: string
  p_web_url :: string
  p_jobs :: "job list"
  p_bridges :: "job list"

subsection \<open>Classification\<close>

text \<open>The \<open>for\<close> loop of \<open>get_infra_failure_info\<close> over a table.\<close>

fun first_match :: "(pattern \<times> FailedJobReason) list \<Rightarrow> string \<Rightarrow> FailedJobReason option" where
  "first_match [] job_log = None"
| "first_match ((regex, type) # rest) job_log =
     (if search regex job_log then Some type else first_match rest job_log)"

definition get_infra_failure_info :: "string \<Rightarrow> FailedJobReason option" where
  "get_infra_failure_info job_log =
     (if job_log = [] then Some GITLAB else first_match infra_failure_logs job_log)"

definition get_job_failure_context ::
  "infra_failure_mapping \<Rightarrow> job \<Rightarrow> string \<Rightarrow> FailedJobType \<times> FailedJobReason" where
  "get_job_failure_context mapping job job_log =
     (if j_class job = ProjectPipelineBridge then (BRIDGE_FAILURE, FAILED_BRIDGE_JOB)
      else case j_failure_reason job of
        Some code \<Rightarrow>
          (if mapping code \<noteq> None
           then (INFRA_FAILURE, from_gitlab_job_failure_reason mapping code)
           else (case get_infra_failure_info job_log of
                   Some type \<Rightarrow> (INFRA_FAILURE, type)
                 | None \<Rightarrow> (JOB_FAILURE, FAILED_JOB_SCRIPT)))
      | None \<Rightarrow>
          (case get_infra_failure_info job_log of
             Some type \<Rightarrow> (INFRA_FAILURE, type)
           | None \<Rightarrow> (JOB_FAILURE, FAILED_JOB_SCRIPT)))"

subsection \<open>Job names\<close>

definition jobs_allowed_to_have_full_names :: "pattern list" where
  "jobs_allowed_to_have_full_names =
     [lit ''kmt_run_'' @ [(Dot, Plus)] @ lit ''_tests_'' @ [(Dot, Star)]]"

definition truncate_job_name :: "string \<Rightarrow> nat \<Rightarrow> string" where
  "truncate_job_name job_name max_char_per_job =
     (if list_ex (\<lambda>pattern. fullmatch pattern job_name) jobs_allowed_to_have_full_names
      then job_name
      else take max_char_per_job (takeWhile (\<lambda>c. c \<noteq> CHR '':'') job_name))"

definition jobs_allowed_to_fail_but_need_report :: "pattern list" where
  "jobs_allowed_to_fail_but_need_report = []"

definition should_report_job :: "string \<Rightarrow> bool \<Rightarrow> bool" where
  "should_report_job job_name allow_failure =
     (\<not> allow_failure \<or>
      list_ex (\<lambda>pattern. fullmatch pattern job_name) jobs_allowed_to_fail_but_need_report)"

subsection \<open>Failed jobs of a pipeline\<close>

text \<open>The attributes of the \<open>ProjectJob\<close> built for each reported name.\<close>

record final_status =
  fs_name :: string
  fs_full_name :: string
  fs_id :: int
  fs_stage :: string
  fs_status :: string
  fs_tag_list :: "string list"
  fs_allow_failure :: bool
  fs_web_url :: string
  fs_retry_summary :: "string list"
  fs_failure_type :: FailedJobType
  fs_failure_reason :: FailedJobReason

text \<open>
  What a call to the platform raises. \<open>trace\<close> below stands for
  \<open>str(repo.jobs.get(id, lazy=True).trace(), 'utf-8')\<close>: the log text of a job, or the
  error the call raised.
\<close>

datatype error = GitlabError string | UnicodeDecodeError

text \<open>
  \<open>failed_jobs[name].append(job)\<close> on a \<open>defaultdict(list)\<close>: the dictionary keeps its
  keys in the order of their first insertion, so it is an association list.
\<close>

fun dict_append :: "string \<Rightarrow> job \<Rightarrow> (string \<times> job list) list \<Rightarrow> (string \<times> job list) list" where
  "dict_append k job [] = [(k, [job])]"
| "dict_append k job ((k', jobs) # rest) =
     (if k' = k then (k', jobs @ [job]) # rest else (k', jobs) # dict_append k job rest)"

text \<open>The first loop of \<open>get_failed_jobs\<close>: instances of failed jobs grouped by name.\<close>

fun group_failed_jobs ::
  "job list \<Rightarrow> (string \<times> job list) list \<Rightarrow> (string \<times> job list) list" where
  "group_failed_jobs [] failed_jobs = failed_jobs"
| "group_failed_jobs (job # jobs) failed_jobs =
     group_failed_jobs jobs
       (if j_status job = ''failed'' then dict_append (j_name job) job failed_jobs
        else failed_jobs)"

text \<open>
  The second loop. \<open>FailedJobs\<close> is a class of \<open>tasks.libs.types.types\<close>; the only
  thing done to it here is \<open>add_failed_job\<close>, so \<open>processed_failed_jobs\<close> is the
  sequence of the entries added, in the order of the calls. An error raised by the fetch
  of a trace leaves the function.
\<close>

fun process_failed_jobs ::
  "infra_failure_mapping \<Rightarrow> (int \<Rightarrow> error + string) \<Rightarrow> (string \<times> job list) list \<Rightarrow>
   final_status list \<Rightarrow> error + final_status list" where
  "process_failed_jobs mapping trace [] processed_failed_jobs = Inr processed_failed_jobs"
| "process_failed_jobs mapping trace ((job_name, unsorted) # rest) processed_failed_jobs =
     (let jobs = sort_key j_created_at unsorted;
          name = truncate_job_name job_name 48;
          job = last jobs;
          is_standard_job = (j_class job \<noteq> ProjectPipelineBridge)
      in case (if is_standard_job then trace (j_id job) else Inr []) of
           Inl e \<Rightarrow> Inl e
         | Inr job_trace \<Rightarrow>
            (let (failure_type, failure_reason) = get_job_failure_context mapping job job_trace;
                 final_status =
                   \<lparr> fs_name = name,
                     fs_full_name = job_name,
                     fs_id = j_id job,
                     fs_stage = j_stage job,
                     fs_status = j_status job,
                     fs_tag_list = (if is_standard_job then j_tag_list job else []),
                     fs_allow_failure = j_allow_failure job,
                     fs_web_url = j_web_url job,
                     fs_retry_summary = map j_status jobs,
                     fs_failure_type = failure_type,
                     fs_failure_reason = failure_reason \<rparr>
             in process_failed_jobs mapping trace rest
                  (if fs_status final_status = ''failed''
                      \<and> should_report_job name (fs_allow_failure final_status)
                   then processed_failed_jobs @ [final_status]
                   else processed_failed_jobs)))"

definition get_failed_jobs ::
  "infra_failure_mapping \<Rightarrow> (int \<Rightarrow> error + string) \<Rightarrow> pipeline \<Rightarrow> error + final_status list" where
  "get_failed_jobs mapping trace pipeline =
     (let jobs = p_jobs pipeline @ p_bridges pipeline;
          failed_jobs = group_failed_jobs jobs []
      in process_failed_jobs mapping trace failed_jobs [])"

subsection \<open>Jobs skipped on the pull request\<close>

record pull_request =
  pr_number :: int
  pr_head_ref :: string

text \<open>What \<open>get_jobs_skipped_on_pr\<close> prints.\<close>

datatype message = MultiplePRsFound string "int list" | NoPipelineFound string

text \<open>
  The inner loop over the jobs of the pull request's pipeline, for one failed job: the
  state is \<open>generated\<close> and \<open>missed_jobs\<close>, and the \<open>break\<close> ends the loop.
\<close>

fun scan_pr_jobs :: "job list \<Rightarrow> final_status \<Rightarrow> bool \<Rightarrow> string list \<Rightarrow> bool \<times> string list" where
  "scan_pr_jobs [] failed_job generated missed_jobs = (generated, missed_jobs)"
| "scan_pr_jobs (job # jobs) failed_job generated missed_jobs =
     (if j_name job = fs_full_name failed_job
      then (if j_status job \<notin> set [''failed'', ''success'']
            then (True, missed_jobs @ [fs_name failed_job])
            else scan_pr_jobs jobs failed_job True missed_jobs)
      else scan_pr_jobs jobs failed_job generated missed_jobs)"

fun scan_failed_jobs :: "job list \<Rightarrow> final_status list \<Rightarrow> string list \<Rightarrow> string list" where
  "scan_failed_jobs jobs [] missed_jobs = missed_jobs"
| "scan_failed_jobs jobs (failed_job # rest) missed_jobs =
     (let (generated, missed_jobs') = scan_pr_jobs jobs failed_job False missed_jobs
      in scan_failed_jobs jobs rest
           (if \<not> generated then missed_jobs' @ [fs_name failed_job] else missed_jobs'))"

text \<open>
  \<open>get_pulls\<close> stands for \<open>gh._repository.get_commit(sha).get_pulls()\<close>,
  \<open>pipelines_list\<close> for \<open>agent.pipelines.list(ref=branch, get_all=False)\<close> and
  \<open>all_mandatory_failures\<close> for the result of \<open>failed_jobs.all_mandatory_failures()\<close>.
  The result is what was printed, the missed jobs and the url.
\<close>

definition get_jobs_skipped_on_pr ::
  "(string \<Rightarrow> pull_request list) \<Rightarrow> (string \<Rightarrow> pipeline list) \<Rightarrow> pipeline \<Rightarrow>
   final_status list \<Rightarrow> message list \<times> string list \<times> string" where
  "get_jobs_skipped_on_pr get_pulls pipelines_list pipeline all_mandatory_failures =
     (let missed_jobs = [];
          prs = get_pulls (p_sha pipeline)
      in if length prs = 0 then ([], missed_jobs, [])
         else if length prs > 1
         then ([MultiplePRsFound (p_sha pipeline) (map pr_number prs)], missed_jobs, [])
         else
           (let pr = prs ! 0;
                branch = pr_head_ref pr;
                pipelines = pipelines_list branch
            in if length pipelines = 0 then ([NoPipelineFound branch], missed_jobs, [])
               else
                 (let pr_pipeline = pipelines ! 0;
                      jobs = p_jobs pr_pipeline @ p_bridges pr_pipeline
                  in ([], scan_failed_jobs jobs all_mandatory_failures missed_jobs,
                      p_web_url pr_pipeline))))"

subsection \<open>Notions used in the proofs\<close>

text \<open>
  The failed jobs of a name, the job a group is reported from (the last of the group
  sorted by \<open>created_at\<close>), the trace fetched for a group, the entry built for a group
  and its trace, the test that adds an entry to the report, and the entries a list of
  groups adds: the second loop of \<open>get_failed_jobs\<close> in closed form.
\<close>

definition failed_named :: "string \<Rightarrow> job list \<Rightarrow> job list" where
  "failed_named n jobs = filter (\<lambda>j. j_status j = ''failed'' \<and> j_name j = n) jobs"

definition canonical :: "job list \<Rightarrow> job" where
  "canonical unsorted = last (sort_key j_created_at unsorted)"

definition group_trace :: "(int \<Rightarrow> error + string) \<Rightarrow> job list \<Rightarrow> error + string" where
  "group_trace trace unsorted =
     (if j_class (canonical unsorted) \<noteq> ProjectPipelineBridge
      then trace (j_id (canonical unsorted)) else Inr [])"

definition group_final_status ::
  "infra_failure_mapping \<Rightarrow> string \<Rightarrow> job list \<Rightarrow> string \<Rightarrow> final_status" where
  "group_final_status mapping job_name unsorted job_trace =
     \<lparr> fs_name = truncate_job_name job_name 48,
       fs_full_name = job_name,
       fs_id = j_id (canonical unsorted),
       fs_stage = j_stage (canonical unsorted),
       fs_status = j_status (canonical unsorted),
       fs_tag_list = (if j_class (canonical unsorted) \<noteq> ProjectPipelineBridge
                      then j_tag_list (canonical unsorted) else []),
       fs_allow_failure = j_allow_failure (canonical unsorted),
       fs_web_url = j_web_url (canonical unsorted),
       fs_retry_summary = map j_status (sort_key j_created_at unsorted),
       fs_failure_type = fst (get_job_failure_context mapping (canonical unsorted) job_trace),
       fs_failure_reason = snd (get_job_failure_context mapping (canonical unsorted) job_trace) \<rparr>"

definition reported :: "final_status \<Rightarrow> bool" where
  "reported fs = (fs_status fs = ''failed'' \<and> should_report_job (fs_name fs) (fs_allow_failure fs))"

definition group_entries ::
  "infra_failure_mapping \<Rightarrow> (int \<Rightarrow> error + string) \<Rightarrow> (string \<times> job list) list \<Rightarrow> final_status list" where
  "group_entries mapping trace groups =
     filter reported
       (map (\<lambda>(n, js). group_final_status mapping n js (projr (group_trace trace js))) groups)"

section \<open>Properties\<close>

subsection \<open>Classification\<close>

lemma first_match_Some_iff:
  "first_match t job_log = Some r \<longleftrightarrow>
     (\<exists>i<length t. search (fst (t ! i)) job_log \<and> (\<forall>k<i. \<not> search (fst (t ! k)) job_log)
        \<and> r = snd (t ! i))"
proof (induction t)
  case Nil
  then show ?case by simp
next
  case (Cons a t)
  obtain regex type where a: "a = (regex, type)" by (cases a)
  show ?case
  proof (cases "search regex job_log")
    case True
    have "(\<exists>i<length (a # t). search (fst ((a # t) ! i)) job_log
            \<and> (\<forall>k<i. \<not> search (fst ((a # t) ! k)) job_log) \<and> r = snd ((a # t) ! i))
          \<longleftrightarrow> r = type"
    proof
      assume "\<exists>i<length (a # t). search (fst ((a # t) ! i)) job_log
            \<and> (\<forall>k<i. \<not> search (fst ((a # t) ! k)) job_log) \<and> r = snd ((a # t) ! i)"
      then obtain i where i: "search (fst ((a # t) ! i)) job_log"
        "\<forall>k<i. \<not> search (fst ((a # t) ! k)) job_log" "r = snd ((a # t) ! i)" by blast
      have "i = 0"
      proof (rule ccontr)
        assume "i \<noteq> 0"
        then have "0 < i" by simp
        with i(2) have "\<not> search (fst ((a # t) ! 0)) job_log" by blast
        with True a show False by simp
      qed
      with i(3) a show "r = type" by simp
    next
      assume "r = type"
      with True a show "\<exists>i<length (a # t). search (fst ((a # t) ! i)) job_log
            \<and> (\<forall>k<i. \<not> search (fst ((a # t) ! k)) job_log) \<and> r = snd ((a # t) ! i)"
        by (intro exI[of _ 0]) simp
    qed
    with True a show ?thesis by auto
  next
    case False
    have "(\<exists>i<length (a # t). search (fst ((a # t) ! i)) job_log
            \<and> (\<forall>k<i. \<not> search (fst ((a # t) ! k)) job_log) \<and> r = snd ((a # t) ! i))
          \<longleftrightarrow> (\<exists>i<length t. search (fst (t ! i)) job_log
            \<and> (\<forall>k<i. \<not> search (fst (t ! k)) job_log) \<and> r = snd (t ! i))" (is "?L \<longleftrightarrow> ?R")
    proof
      assume ?L
      then obtain i where i: "i < length (a # t)" "search (fst ((a # t) ! i)) job_log"
        "\<forall>k<i. \<not> search (fst ((a # t) ! k)) job_log" "r = snd ((a # t) ! i)" by blast
      from i(2) False a obtain j where j: "i = Suc j" by (cases i) auto
      have "\<forall>k<j. \<not> search (fst (t ! k)) job_log"
      proof (intro allI impI)
        fix k assume "k < j"
        then have "Suc k < i" using j by simp
        with i(3) have "\<not> search (fst ((a # t) ! Suc k)) job_log" by blast
        then show "\<not> search (fst (t ! k)) job_log" by simp
      qed
      with i j show ?R by (intro exI[of _ j]) simp
    next
      assume ?R
      then obtain j where j: "j < length t" "search (fst (t ! j)) job_log"
        "\<forall>k<j. \<not> search (fst (t ! k)) job_log" "r = snd (t ! j)" by blast
      have "\<forall>k<Suc j. \<not> search (fst ((a # t) ! k)) job_log"
      proof (intro allI impI)
        fix k assume k: "k < Suc j"
        show "\<not> search (fst ((a # t) ! k)) job_log"
        proof (cases k)
          case 0
          with False a show ?thesis by simp
        next
          case (Suc k')
          with k j(3) show ?thesis by simp
        qed
      qed
      with j show ?L by (intro exI[of _ "Suc j"]) simp
    qed
    with False a Cons.IH show ?thesis by simp
  qed
qed

lemma first_match_None_iff:
  "first_match t job_log = None \<longleftrightarrow> (\<forall>k<length t. \<not> search (fst (t ! k)) job_log)"
proof (induction t)
  case Nil
  then show ?case by simp
next
  case (Cons a t)
  obtain regex type where a: "a = (regex, type)" by (cases a)
  show ?case
  proof (cases "search regex job_log")
    case True
    with a show ?thesis by auto
  next
    case False
    have "(\<forall>k<length (a # t). \<not> search (fst ((a # t) ! k)) job_log)
        \<longleftrightarrow> (\<forall>k<length t. \<not> search (fst (t ! k)) job_log)"
      using False a by (auto simp: All_less_Suc2 less_Suc_eq_0_disj)
    with False a Cons.IH show ?thesis by simp
  qed
qed

lemma ctx_bridge:
  "j_class job = ProjectPipelineBridge \<Longrightarrow>
     get_job_failure_context mapping job job_log = (BRIDGE_FAILURE, FAILED_BRIDGE_JOB)"
  by (simp add: get_job_failure_context_def)

lemma ctx_mapped:
  "j_class job \<noteq> ProjectPipelineBridge \<Longrightarrow> j_failure_reason job = Some code \<Longrightarrow>
   mapping code = Some reason \<Longrightarrow>
     get_job_failure_context mapping job job_log = (INFRA_FAILURE, reason)"
  by (simp add: get_job_failure_context_def from_gitlab_job_failure_reason_def)

lemma ctx_log:
  "j_class job \<noteq> ProjectPipelineBridge \<Longrightarrow>
   (\<forall>code. j_failure_reason job = Some code \<longrightarrow> mapping code = None) \<Longrightarrow>
     get_job_failure_context mapping job job_log =
       (case get_infra_failure_info job_log of
          Some type \<Rightarrow> (INFRA_FAILURE, type) | None \<Rightarrow> (JOB_FAILURE, FAILED_JOB_SCRIPT))"
  by (auto simp: get_job_failure_context_def split: option.splits)

lemma all_less_take:
  "i \<le> length t \<Longrightarrow> (\<forall>k<i. P (t ! k)) \<longleftrightarrow> list_all P (take i t)"
  by (simp add: list_all_length)

lemma first_match_in_table:
  "first_match t job_log = Some r \<Longrightarrow> r \<in> snd ` set t"
  by (induction t) (auto split: if_splits)

lemma infra_failure_logs_reasons:
  "snd ` set infra_failure_logs = {RUNNER, GITLAB, EC2_SPOT, E2E_INFRA_FAILURE}"
  by (auto simp: infra_failure_logs_def)

lemma get_infra_failure_info_reasons:
  "get_infra_failure_info job_log = Some r \<Longrightarrow> r \<in> {RUNNER, GITLAB, EC2_SPOT, E2E_INFRA_FAILURE}"
  using first_match_in_table [of infra_failure_logs job_log r]
  by (auto simp: get_infra_failure_info_def infra_failure_logs_reasons split: if_splits)

text \<open>
  C4: the classification applies its rules in strict order. A bridge is a
  \<open>(BRIDGE_FAILURE, FAILED_BRIDGE_JOB)\<close> whatever the log; otherwise a failure reason
  that is a key of the mapping gives \<open>INFRA_FAILURE\<close> with the mapped reason whatever the
  log; otherwise an empty log gives \<open>(INFRA_FAILURE, GITLAB)\<close>; otherwise the first rule
  of \<open>infra_failure_logs\<close> that the log matches gives its reason as an \<open>INFRA_FAILURE\<close>,
  an earlier rule winning over a later one; otherwise the result is
  \<open>(JOB_FAILURE, FAILED_JOB_SCRIPT)\<close>.
\<close>

theorem get_job_failure_context_order:
  "(j_class job = ProjectPipelineBridge \<longrightarrow>
      (\<forall>job_log. get_job_failure_context mapping job job_log = (BRIDGE_FAILURE, FAILED_BRIDGE_JOB)))
   \<and> (j_class job \<noteq> ProjectPipelineBridge \<and> j_failure_reason job = Some code
        \<and> mapping code = Some reason \<longrightarrow>
      (\<forall>job_log. get_job_failure_context mapping job job_log = (INFRA_FAILURE, reason)))
   \<and> (j_class job \<noteq> ProjectPipelineBridge
        \<and> (\<forall>code. j_failure_reason job = Some code \<longrightarrow> mapping code = None) \<longrightarrow>
      (get_job_failure_context mapping job [] = (INFRA_FAILURE, GITLAB))
      \<and> (\<forall>job_log i. job_log \<noteq> [] \<and> i < length infra_failure_logs
             \<and> search (fst (infra_failure_logs ! i)) job_log
             \<and> (\<forall>k<i. \<not> search (fst (infra_failure_logs ! k)) job_log) \<longrightarrow>
           get_job_failure_context mapping job job_log
             = (INFRA_FAILURE, snd (infra_failure_logs ! i)))
      \<and> (\<forall>job_log. job_log \<noteq> []
             \<and> (\<forall>k<length infra_failure_logs. \<not> search (fst (infra_failure_logs ! k)) job_log) \<longrightarrow>
           get_job_failure_context mapping job job_log = (JOB_FAILURE, FAILED_JOB_SCRIPT)))"
proof (intro conjI impI allI)
  assume "j_class job = ProjectPipelineBridge"
  then show "get_job_failure_context mapping job job_log = (BRIDGE_FAILURE, FAILED_BRIDGE_JOB)"
    for job_log by (rule ctx_bridge)
next
  fix job_log
  assume "j_class job \<noteq> ProjectPipelineBridge \<and> j_failure_reason job = Some code
        \<and> mapping code = Some reason"
  then show "get_job_failure_context mapping job job_log = (INFRA_FAILURE, reason)"
    by (simp add: ctx_mapped)
next
  assume h: "j_class job \<noteq> ProjectPipelineBridge
        \<and> (\<forall>code. j_failure_reason job = Some code \<longrightarrow> mapping code = None)"
  then show "get_job_failure_context mapping job [] = (INFRA_FAILURE, GITLAB)"
    by (simp add: ctx_log get_infra_failure_info_def)
next
  fix job_log i
  assume h: "j_class job \<noteq> ProjectPipelineBridge
        \<and> (\<forall>code. j_failure_reason job = Some code \<longrightarrow> mapping code = None)"
    and m: "job_log \<noteq> [] \<and> i < length infra_failure_logs
             \<and> search (fst (infra_failure_logs ! i)) job_log
             \<and> (\<forall>k<i. \<not> search (fst (infra_failure_logs ! k)) job_log)"
  from m have "first_match infra_failure_logs job_log = Some (snd (infra_failure_logs ! i))"
    unfolding first_match_Some_iff by blast
  with m have "get_infra_failure_info job_log = Some (snd (infra_failure_logs ! i))"
    by (simp add: get_infra_failure_info_def)
  with h show "get_job_failure_context mapping job job_log
             = (INFRA_FAILURE, snd (infra_failure_logs ! i))"
    by (simp add: ctx_log)
next
  fix job_log
  assume h: "j_class job \<noteq> ProjectPipelineBridge
        \<and> (\<forall>code. j_failure_reason job = Some code \<longrightarrow> mapping code = None)"
    and m: "job_log \<noteq> []
             \<and> (\<forall>k<length infra_failure_logs. \<not> search (fst (infra_failure_logs ! k)) job_log)"
  from m have "first_match infra_failure_logs job_log = None"
    unfolding first_match_None_iff by blast
  with m have "get_infra_failure_info job_log = None"
    by (simp add: get_infra_failure_info_def)
  with h show "get_job_failure_context mapping job job_log = (JOB_FAILURE, FAILED_JOB_SCRIPT)"
    by (simp add: ctx_log)
qed

text \<open>
  The five rules at concrete jobs; the log of the fourth matches rule 2 (a runner
  message) and rule 10 (the end to end marker), and the runner reason wins.
\<close>

theorem get_job_failure_context_order_witness:
  "get_job_failure_context (Map.empty(''runner_system_failure'' \<mapsto> RUNNER))
     \<lparr> j_class = ProjectPipelineBridge, j_id = 1, j_name = ''trigger'', j_stage = ''deploy'',
       j_status = ''failed'', j_tag_list = [], j_allow_failure = False, j_web_url = ''u'',
       j_created_at = 1, j_failure_reason = None \<rparr> ''E2E INTERNAL ERROR''
     = (BRIDGE_FAILURE, FAILED_BRIDGE_JOB)
   \<and> get_job_failure_context (Map.empty(''runner_system_failure'' \<mapsto> RUNNER))
     \<lparr> j_class = ProjectJob, j_id = 2, j_name = ''build'', j_stage = ''build'',
       j_status = ''failed'', j_tag_list = [], j_allow_failure = False, j_web_url = ''u'',
       j_created_at = 1, j_failure_reason = Some ''runner_system_failure'' \<rparr> ''E2E INTERNAL ERROR''
     = (INFRA_FAILURE, RUNNER)
   \<and> get_job_failure_context (Map.empty(''runner_system_failure'' \<mapsto> RUNNER))
     \<lparr> j_class = ProjectJob, j_id = 3, j_name = ''test'', j_stage = ''test'',
       j_status = ''failed'', j_tag_list = [], j_allow_failure = False, j_web_url = ''u'',
       j_created_at = 1, j_failure_reason = Some ''script_failure'' \<rparr> []
     = (INFRA_FAILURE, GITLAB)
   \<and> search (fst (infra_failure_logs ! 10)) ''Docker runner job start script failed E2E INTERNAL ERROR''
   \<and> get_job_failure_context (Map.empty(''runner_system_failure'' \<mapsto> RUNNER))
     \<lparr> j_class = ProjectJob, j_id = 3, j_name = ''test'', j_stage = ''test'',
       j_status = ''failed'', j_tag_list = [], j_allow_failure = False, j_web_url = ''u'',
       j_created_at = 1, j_failure_reason = Some ''script_failure'' \<rparr>
       ''Docker runner job start script failed E2E INTERNAL ERROR''
     = (INFRA_FAILURE, RUNNER)
   \<and> get_job_failure_context (Map.empty(''runner_system_failure'' \<mapsto> RUNNER))
     \<lparr> j_class = ProjectJob, j_id = 3, j_name = ''test'', j_stage = ''test'',
       j_status = ''failed'', j_tag_list = [], j_allow_failure = False, j_web_url = ''u'',
       j_created_at = 1, j_failure_reason = Some ''script_failure'' \<rparr> ''exit status 1''
     = (JOB_FAILURE, FAILED_JOB_SCRIPT)"
  (is "?b \<and> ?m \<and> ?e \<and> ?s \<and> ?p \<and> ?d")
proof -
  let ?mp = "Map.empty(''runner_system_failure'' \<mapsto> RUNNER)"
  let ?jb = "\<lparr> j_class = ProjectPipelineBridge, j_id = 1, j_name = ''trigger'', j_stage = ''deploy'',
       j_status = ''failed'', j_tag_list = [], j_allow_failure = False, j_web_url = ''u'',
       j_created_at = 1, j_failure_reason = None \<rparr>"
  let ?js = "\<lparr> j_class = ProjectJob, j_id = 2, j_name = ''build'', j_stage = ''build'',
       j_status = ''failed'', j_tag_list = [], j_allow_failure = False, j_web_url = ''u'',
       j_created_at = 1, j_failure_reason = Some ''runner_system_failure'' \<rparr>"
  let ?j0 = "\<lparr> j_class = ProjectJob, j_id = 3, j_name = ''test'', j_stage = ''test'',
       j_status = ''failed'', j_tag_list = [], j_allow_failure = False, j_web_url = ''u'',
       j_created_at = 1, j_failure_reason = Some ''script_failure'' \<rparr>"
  let ?log = "''Docker runner job start script failed E2E INTERNAL ERROR''"
  have len: "length infra_failure_logs = 11"
    by (simp add: infra_failure_logs_def)
  have b: ?b
    using get_job_failure_context_order [of ?jb ?mp] by simp
  have m: ?m
    using get_job_failure_context_order [of ?js ?mp "''runner_system_failure''" RUNNER] by simp
  have unmapped: "j_class ?j0 \<noteq> ProjectPipelineBridge
      \<and> (\<forall>code. j_failure_reason ?j0 = Some code \<longrightarrow> ?mp code = None)"
    by simp
  have e: ?e
    using get_job_failure_context_order [of ?j0 ?mp] unmapped by blast
  have s: ?s by code_simp
  have s2: "search (fst (infra_failure_logs ! 2)) ?log" by code_simp
  have "list_all (\<lambda>r. \<not> search (fst r) ?log) (take 2 infra_failure_logs)" by code_simp
  then have n2: "\<forall>k<2. \<not> search (fst (infra_failure_logs ! k)) ?log"
    using all_less_take [of 2 infra_failure_logs "\<lambda>r. \<not> search (fst r) ?log"] len by simp
  have r2: "snd (infra_failure_logs ! 2) = RUNNER" by code_simp
  have "?log \<noteq> [] \<and> 2 < length infra_failure_logs
      \<and> search (fst (infra_failure_logs ! 2)) ?log
      \<and> (\<forall>k<2. \<not> search (fst (infra_failure_logs ! k)) ?log)"
    using s2 n2 len by simp
  then have "get_job_failure_context ?mp ?j0 ?log = (INFRA_FAILURE, snd (infra_failure_logs ! 2))"
    using get_job_failure_context_order [of ?j0 ?mp] unmapped by blast
  then have p: ?p using r2 by simp
  have "list_all (\<lambda>r. \<not> search (fst r) ''exit status 1'') infra_failure_logs" by code_simp
  then have "''exit status 1'' \<noteq> []
      \<and> (\<forall>k<length infra_failure_logs. \<not> search (fst (infra_failure_logs ! k)) ''exit status 1'')"
    by (simp add: list_all_length)
  then have d: ?d
    using get_job_failure_context_order [of ?j0 ?mp] unmapped by blast
  from b m e s p d show ?thesis by blast
qed

text \<open>
  C6: with a mapping that has no key for \<open>FAILED_BRIDGE_JOB\<close> (the spec lists it among
  the fixed defaults, not among the reasons derived from a platform code), the type of a
  classification is \<open>BRIDGE_FAILURE\<close> exactly when its reason is \<open>FAILED_BRIDGE_JOB\<close>,
  and a bridge is classified \<open>(BRIDGE_FAILURE, FAILED_BRIDGE_JOB)\<close> for every log.
\<close>

theorem bridge_failure_iff_failed_bridge_job:
  assumes "FAILED_BRIDGE_JOB \<notin> ran mapping"
  shows "(fst (get_job_failure_context mapping job job_log) = BRIDGE_FAILURE
            \<longleftrightarrow> snd (get_job_failure_context mapping job job_log) = FAILED_BRIDGE_JOB)
         \<and> (j_class job = ProjectPipelineBridge \<longrightarrow>
              get_job_failure_context mapping job job_log = (BRIDGE_FAILURE, FAILED_BRIDGE_JOB))"
proof (cases "j_class job = ProjectPipelineBridge")
  case True
  then show ?thesis by (simp add: ctx_bridge)
next
  case standard: False
  show ?thesis
  proof (cases "\<exists>code reason. j_failure_reason job = Some code \<and> mapping code = Some reason")
    case True
    then obtain code reason where c: "j_failure_reason job = Some code" "mapping code = Some reason"
      by blast
    from c(2) assms have "reason \<noteq> FAILED_BRIDGE_JOB" by (auto simp: ran_def)
    with standard c show ?thesis by (simp add: ctx_mapped)
  next
    case False
    then have "\<forall>code. j_failure_reason job = Some code \<longrightarrow> mapping code = None" by auto
    with standard have eq: "get_job_failure_context mapping job job_log =
       (case get_infra_failure_info job_log of
          Some type \<Rightarrow> (INFRA_FAILURE, type) | None \<Rightarrow> (JOB_FAILURE, FAILED_JOB_SCRIPT))"
      by (rule ctx_log)
    show ?thesis
    proof (cases "get_infra_failure_info job_log")
      case None
      with eq standard show ?thesis by simp
    next
      case (Some r)
      with get_infra_failure_info_reasons have "r \<noteq> FAILED_BRIDGE_JOB" by fastforce
      with eq Some standard show ?thesis by simp
    qed
  qed
qed

theorem bridge_failure_iff_failed_bridge_job_witness:
  "FAILED_BRIDGE_JOB \<notin> ran (Map.empty(''runner_system_failure'' \<mapsto> RUNNER))
   \<and> get_job_failure_context (Map.empty(''runner_system_failure'' \<mapsto> RUNNER))
     \<lparr> j_class = ProjectPipelineBridge, j_id = 1, j_name = ''trigger'', j_stage = ''deploy'',
       j_status = ''failed'', j_tag_list = [], j_allow_failure = False, j_web_url = ''u'',
       j_created_at = 1, j_failure_reason = Some ''runner_system_failure'' \<rparr>
       ''Docker runner job start script failed''
     = (BRIDGE_FAILURE, FAILED_BRIDGE_JOB)"
proof -
  have h: "FAILED_BRIDGE_JOB \<notin> ran (Map.empty(''runner_system_failure'' \<mapsto> RUNNER))"
    by simp
  show ?thesis
    using h bridge_failure_iff_failed_bridge_job [OF h,
      of "\<lparr> j_class = ProjectPipelineBridge, j_id = 1, j_name = ''trigger'', j_stage = ''deploy'',
       j_status = ''failed'', j_tag_list = [], j_allow_failure = False, j_web_url = ''u'',
       j_created_at = 1, j_failure_reason = Some ''runner_system_failure'' \<rparr>"
      "''Docker runner job start script failed''"]
    by simp
qed

subsection \<open>Job names\<close>

text \<open>
  C7: a name that matches an entry of \<open>jobs_allowed_to_have_full_names\<close> is returned
  unchanged; any other name is cut before its first colon and then to at most 48
  characters. \<open>kmt_run_foo_tests_bar\<close> is kept, \<open>unit_tests:windows-x64\<close> becomes
  \<open>unit_tests\<close>, and a name of 60 characters without a colon (outside the list) becomes
  its first 48 characters.
\<close>

theorem truncate_job_name_cases:
  "(list_ex (\<lambda>pattern. fullmatch pattern job_name) jobs_allowed_to_have_full_names \<longrightarrow>
      truncate_job_name job_name 48 = job_name)
   \<and> (\<not> list_ex (\<lambda>pattern. fullmatch pattern job_name) jobs_allowed_to_have_full_names \<longrightarrow>
      length (truncate_job_name job_name 48) \<le> 48
      \<and> (\<forall>header rest. job_name = header @ CHR '':'' # rest \<and> CHR '':'' \<notin> set header \<longrightarrow>
            truncate_job_name job_name 48 = take 48 header)
      \<and> (CHR '':'' \<notin> set job_name \<longrightarrow> truncate_job_name job_name 48 = take 48 job_name)
      \<and> (CHR '':'' \<notin> set job_name \<and> length job_name = 60 \<longrightarrow>
            length (truncate_job_name job_name 48) = 48))
   \<and> truncate_job_name ''kmt_run_foo_tests_bar'' 48 = ''kmt_run_foo_tests_bar''
   \<and> truncate_job_name ''unit_tests:windows-x64'' 48 = ''unit_tests''"
proof -
  have nocolon: "takeWhile (\<lambda>c. c \<noteq> CHR '':'') s = s" if "CHR '':'' \<notin> set s" for s
    using that by (induction s) auto
  have colon: "takeWhile (\<lambda>c. c \<noteq> CHR '':'') (header @ CHR '':'' # rest) = header"
    if "CHR '':'' \<notin> set header" for header rest
    using that by (induction header) auto
  have kmt: "truncate_job_name ''kmt_run_foo_tests_bar'' 48 = ''kmt_run_foo_tests_bar''"
    by code_simp
  have unit: "truncate_job_name ''unit_tests:windows-x64'' 48 = ''unit_tests''"
    by code_simp
  show ?thesis
    using kmt unit by (auto simp: truncate_job_name_def nocolon colon)
qed

theorem truncate_job_name_cases_witness:
  "\<not> list_ex (\<lambda>pattern. fullmatch pattern ''integration_tests_windows_server_2022_x64_python3_a7_fips_01'')
       jobs_allowed_to_have_full_names
   \<and> length ''integration_tests_windows_server_2022_x64_python3_a7_fips_01'' = 60
   \<and> truncate_job_name ''integration_tests_windows_server_2022_x64_python3_a7_fips_01'' 48
       = ''integration_tests_windows_server_2022_x64_python''
   \<and> list_ex (\<lambda>pattern. fullmatch pattern ''kmt_run_foo_tests_bar'') jobs_allowed_to_have_full_names
   \<and> truncate_job_name ''kmt_run_foo_tests_bar'' 48 = ''kmt_run_foo_tests_bar''
   \<and> truncate_job_name ''tests_deb:x64:py3'' 48 = ''tests_deb''"
proof -
  let ?n = "''integration_tests_windows_server_2022_x64_python3_a7_fips_01''"
  have a: "\<not> list_ex (\<lambda>pattern. fullmatch pattern ?n) jobs_allowed_to_have_full_names"
    by code_simp
  have b: "CHR '':'' \<notin> set ?n" by simp
  have c: "list_ex (\<lambda>pattern. fullmatch pattern ''kmt_run_foo_tests_bar'')
             jobs_allowed_to_have_full_names"
    by code_simp
  have d: "\<not> list_ex (\<lambda>pattern. fullmatch pattern ''tests_deb:x64:py3'')
             jobs_allowed_to_have_full_names"
    by code_simp
  have e: "''tests_deb:x64:py3'' = ''tests_deb'' @ CHR '':'' # ''x64:py3'' \<and> CHR '':'' \<notin> set ''tests_deb''"
    by simp
  have "truncate_job_name ?n 48 = take 48 ?n"
    using truncate_job_name_cases [of ?n] a b by blast
  moreover have "truncate_job_name ''tests_deb:x64:py3'' 48 = take 48 ''tests_deb''"
    using truncate_job_name_cases [of "''tests_deb:x64:py3''"] d e by blast
  moreover have "truncate_job_name ''kmt_run_foo_tests_bar'' 48 = ''kmt_run_foo_tests_bar''"
    using truncate_job_name_cases [of "''kmt_run_foo_tests_bar''"] c by blast
  ultimately show ?thesis using a c by simp
qed

subsection \<open>Grouping of the failed jobs\<close>

lemma map_fst_dict_append:
  "map fst (dict_append k job d) = (if k \<in> fst ` set d then map fst d else map fst d @ [k])"
proof (induction d)
  case Nil
  then show ?case by simp
next
  case (Cons a d)
  obtain k' js where a: "a = (k', js)" by (cases a)
  show ?case
  proof (cases "k' = k")
    case True
    with a show ?thesis by simp
  next
    case False
    with a Cons.IH show ?thesis by (cases "k \<in> fst ` set d") auto
  qed
qed

lemma map_of_dict_append:
  "map_of (dict_append k job d) n =
     (if n = k then Some ((case map_of d k of None \<Rightarrow> [] | Some js \<Rightarrow> js) @ [job])
      else map_of d n)"
  by (induction d) auto

lemma distinct_dict_append:
  "distinct (map fst d) \<Longrightarrow> distinct (map fst (dict_append k job d))"
  by (simp add: map_fst_dict_append)

lemma distinct_group_failed_jobs:
  "distinct (map fst d) \<Longrightarrow> distinct (map fst (group_failed_jobs jobs d))"
  by (induction jobs arbitrary: d) (simp_all add: distinct_dict_append)

lemma map_of_group_failed_jobs:
  "map_of (group_failed_jobs jobs d) n =
     (case map_of d n of
        None \<Rightarrow> (if failed_named n jobs = [] then None else Some (failed_named n jobs))
      | Some js \<Rightarrow> Some (js @ failed_named n jobs))"
proof (induction jobs arbitrary: d)
  case Nil
  then show ?case by (simp add: failed_named_def split: option.splits)
next
  case (Cons job jobs)
  show ?case
    by (simp add: Cons.IH map_of_dict_append failed_named_def split: option.splits)
qed

lemma group_failed_jobs_set:
  "(n, js) \<in> set (group_failed_jobs jobs []) \<longleftrightarrow> js = failed_named n jobs \<and> js \<noteq> []"
proof -
  have d: "distinct (map fst (group_failed_jobs jobs []))"
    by (rule distinct_group_failed_jobs) simp
  have "(n, js) \<in> set (group_failed_jobs jobs []) \<longleftrightarrow> map_of (group_failed_jobs jobs []) n = Some js"
    using d by simp
  also have "\<dots> \<longleftrightarrow> js = failed_named n jobs \<and> js \<noteq> []"
    by (auto simp: map_of_group_failed_jobs)
  finally show ?thesis .
qed

lemma last_filter_keeps:
  "xs \<noteq> [] \<Longrightarrow> P (last xs) \<Longrightarrow> last (filter P xs) = last xs"
  by (induction xs rule: rev_induct) auto

lemma canonical_in_group: "js \<noteq> [] \<Longrightarrow> canonical js \<in> set js"
proof -
  assume "js \<noteq> []"
  then have "sort_key j_created_at js \<noteq> []"
    by (metis length_sort length_0_conv)
  then have "last (sort_key j_created_at js) \<in> set (sort_key j_created_at js)"
    by (rule last_in_set)
  then show ?thesis by (simp add: canonical_def)
qed

lemma canonical_failed_named:
  "failed_named n jobs \<noteq> [] \<Longrightarrow>
     j_status (canonical (failed_named n jobs)) = ''failed''
     \<and> j_name (canonical (failed_named n jobs)) = n
     \<and> canonical (failed_named n jobs) \<in> set jobs"
  using canonical_in_group [of "failed_named n jobs"] by (auto simp: failed_named_def)

text \<open>
  The latest attempt of a name, when it failed, is the job the report is built from.
\<close>

lemma canonical_latest_attempt:
  assumes "filter (\<lambda>j. j_name j = n) jobs \<noteq> []"
    and "j_status (last (sort_key j_created_at (filter (\<lambda>j. j_name j = n) jobs))) = ''failed''"
  shows "failed_named n jobs \<noteq> []"
    and "canonical (failed_named n jobs)
           = last (sort_key j_created_at (filter (\<lambda>j. j_name j = n) jobs))"
proof -
  let ?named = "filter (\<lambda>j. j_name j = n) jobs"
  let ?sorted = "sort_key j_created_at ?named"
  have ne: "?sorted \<noteq> []" using assms(1) by (metis length_sort length_0_conv)
  have fn: "failed_named n jobs = filter (\<lambda>j. j_status j = ''failed'') ?named"
    by (auto simp: failed_named_def intro: filter_cong)
  have "sort_key j_created_at (failed_named n jobs)
          = filter (\<lambda>j. j_status j = ''failed'') ?sorted"
    unfolding fn by (simp only: filter_sort)
  then have c: "canonical (failed_named n jobs) = last ?sorted"
    unfolding canonical_def using last_filter_keeps [OF ne, of "\<lambda>j. j_status j = ''failed''"] assms(2)
    by simp
  show "canonical (failed_named n jobs) = last ?sorted" by (rule c)
  have "last ?sorted \<in> set ?sorted" using ne by (rule last_in_set)
  then have "last ?sorted \<in> set ?named" by simp
  with assms(2) have "last ?sorted \<in> set (failed_named n jobs)"
    unfolding fn by simp
  then show "failed_named n jobs \<noteq> []" by auto
qed

subsection \<open>The report\<close>

lemma process_failed_jobs_step:
  "process_failed_jobs mapping trace ((n, js) # rest) acc =
     (case group_trace trace js of
        Inl e \<Rightarrow> Inl e
      | Inr t \<Rightarrow> process_failed_jobs mapping trace rest
                  (if reported (group_final_status mapping n js t)
                   then acc @ [group_final_status mapping n js t] else acc))"
  by (auto simp: Let_def group_trace_def canonical_def group_final_status_def reported_def
      split_beta split: sum.splits)

lemma process_failed_jobs_Inr_iff:
  "process_failed_jobs mapping trace groups acc = Inr res \<longleftrightarrow>
     (\<forall>g\<in>set groups. \<exists>t. group_trace trace (snd g) = Inr t)
     \<and> res = acc @ group_entries mapping trace groups"
proof (induction groups arbitrary: acc)
  case Nil
  then show ?case by (auto simp: group_entries_def)
next
  case (Cons g groups)
  obtain n js where g: "g = (n, js)" by (cases g)
  show ?case
  proof (cases "group_trace trace js")
    case (Inl e)
    with g show ?thesis
      by (auto simp: process_failed_jobs_step simp del: process_failed_jobs.simps)
  next
    case (Inr t)
    with g Cons.IH show ?thesis
      by (auto simp: process_failed_jobs_step group_entries_def
          simp del: process_failed_jobs.simps)
  qed
qed

lemma process_failed_jobs_Inl:
  assumes "g \<in> set groups" "group_trace trace (snd g) = Inl e"
  shows "\<exists>e' g'. process_failed_jobs mapping trace groups acc = Inl e'
            \<and> g' \<in> set groups \<and> group_trace trace (snd g') = Inl e'"
  using assms
proof (induction groups arbitrary: acc)
  case Nil
  then show ?case by simp
next
  case (Cons h groups)
  obtain n js where h: "h = (n, js)" by (cases h)
  show ?case
  proof (cases "group_trace trace js")
    case (Inl e1)
    then have "process_failed_jobs mapping trace (h # groups) acc = Inl e1"
      unfolding h process_failed_jobs_step by simp
    moreover have "h \<in> set (h # groups)" by simp
    moreover have "group_trace trace (snd h) = Inl e1" using Inl h by simp
    ultimately show ?thesis by blast
  next
    case (Inr t)
    with Cons.prems h have "g \<in> set groups" by auto
    from Cons.IH [OF this Cons.prems(2)]
    obtain e' g' where r: "process_failed_jobs mapping trace groups
        (if reported (group_final_status mapping n js t)
         then acc @ [group_final_status mapping n js t] else acc) = Inl e'"
      "g' \<in> set groups" "group_trace trace (snd g') = Inl e'"
      by blast
    have "process_failed_jobs mapping trace (h # groups) acc = Inl e'"
      unfolding h process_failed_jobs_step using Inr r(1) by simp
    moreover have "g' \<in> set (h # groups)" using r(2) by simp
    ultimately show ?thesis using r(3) by blast
  qed
qed

lemma get_failed_jobs_Inr_iff:
  "get_failed_jobs mapping trace pipeline = Inr report \<longleftrightarrow>
     (\<forall>g\<in>set (group_failed_jobs (p_jobs pipeline @ p_bridges pipeline) []).
         \<exists>t. group_trace trace (snd g) = Inr t)
     \<and> report = group_entries mapping trace
                  (group_failed_jobs (p_jobs pipeline @ p_bridges pipeline) [])"
  by (simp add: get_failed_jobs_def Let_def process_failed_jobs_Inr_iff)

lemma report_entry_iff:
  assumes "get_failed_jobs mapping trace pipeline = Inr report"
  shows "e \<in> set report \<longleftrightarrow>
     (\<exists>n t. failed_named n (p_jobs pipeline @ p_bridges pipeline) \<noteq> []
        \<and> group_trace trace (failed_named n (p_jobs pipeline @ p_bridges pipeline)) = Inr t
        \<and> e = group_final_status mapping n
                 (failed_named n (p_jobs pipeline @ p_bridges pipeline)) t
        \<and> reported e)"
proof -
  let ?J = "p_jobs pipeline @ p_bridges pipeline"
  let ?G = "group_failed_jobs ?J []"
  from assms have ok: "\<forall>g\<in>set ?G. \<exists>t. group_trace trace (snd g) = Inr t"
    and rep: "report = group_entries mapping trace ?G"
    by (simp_all add: get_failed_jobs_Inr_iff)
  show ?thesis
  proof
    assume "e \<in> set report"
    with rep obtain n js where g: "(n, js) \<in> set ?G"
      and e: "e = group_final_status mapping n js (projr (group_trace trace js))" "reported e"
      by (auto simp: group_entries_def)
    from g have "js = failed_named n ?J \<and> js \<noteq> []"
      using group_failed_jobs_set [of n js ?J] by blast
    then have js: "js = failed_named n ?J" "js \<noteq> []" by blast+
    from ok g obtain t where t: "group_trace trace js = Inr t" by fastforce
    with e js show "\<exists>n t. failed_named n ?J \<noteq> [] \<and> group_trace trace (failed_named n ?J) = Inr t
        \<and> e = group_final_status mapping n (failed_named n ?J) t \<and> reported e"
      by (intro exI[of _ n] exI[of _ t]) simp
  next
    assume "\<exists>n t. failed_named n ?J \<noteq> [] \<and> group_trace trace (failed_named n ?J) = Inr t
        \<and> e = group_final_status mapping n (failed_named n ?J) t \<and> reported e"
    then obtain n t where h: "failed_named n ?J \<noteq> []"
      "group_trace trace (failed_named n ?J) = Inr t"
      "e = group_final_status mapping n (failed_named n ?J) t" "reported e" by blast
    from h(1) have "(n, failed_named n ?J) \<in> set ?G" by (simp add: group_failed_jobs_set)
    then have "group_final_status mapping n (failed_named n ?J)
                 (projr (group_trace trace (failed_named n ?J)))
               \<in> set (map (\<lambda>(n, js). group_final_status mapping n js (projr (group_trace trace js))) ?G)"
      by force
    with h show "e \<in> set report" unfolding rep group_entries_def by simp
  qed
qed

lemma get_failed_jobs_Inl:
  assumes "failed_named n (p_jobs pipeline @ p_bridges pipeline) \<noteq> []"
    and "group_trace trace (failed_named n (p_jobs pipeline @ p_bridges pipeline)) = Inl e"
  shows "\<exists>e' n'. get_failed_jobs mapping trace pipeline = Inl e'
           \<and> failed_named n' (p_jobs pipeline @ p_bridges pipeline) \<noteq> []
           \<and> group_trace trace (failed_named n' (p_jobs pipeline @ p_bridges pipeline)) = Inl e'"
proof -
  let ?J = "p_jobs pipeline @ p_bridges pipeline"
  let ?G = "group_failed_jobs ?J []"
  from assms(1) have "(n, failed_named n ?J) \<in> set ?G" by (simp add: group_failed_jobs_set)
  from process_failed_jobs_Inl [OF this, of trace e mapping "[]"] assms(2)
  obtain e' g' where r: "process_failed_jobs mapping trace ?G [] = Inl e'" "g' \<in> set ?G"
    "group_trace trace (snd g') = Inl e'" by auto
  obtain n' js' where g': "g' = (n', js')" by (cases g')
  with r(2) have "js' = failed_named n' ?J \<and> js' \<noteq> []"
    using group_failed_jobs_set [of n' js' ?J] by blast
  then have "js' = failed_named n' ?J" "js' \<noteq> []" by blast+
  with r g' show ?thesis by (auto simp: get_failed_jobs_def Let_def)
qed

lemma group_final_status_simps:
  "fs_name (group_final_status mapping n js t) = truncate_job_name n 48"
  "fs_full_name (group_final_status mapping n js t) = n"
  "fs_id (group_final_status mapping n js t) = j_id (canonical js)"
  "fs_status (group_final_status mapping n js t) = j_status (canonical js)"
  "fs_allow_failure (group_final_status mapping n js t) = j_allow_failure (canonical js)"
  "fs_retry_summary (group_final_status mapping n js t) = map j_status (sort_key j_created_at js)"
  "fs_failure_type (group_final_status mapping n js t)
     = fst (get_job_failure_context mapping (canonical js) t)"
  "fs_failure_reason (group_final_status mapping n js t)
     = snd (get_job_failure_context mapping (canonical js) t)"
  by (simp_all add: group_final_status_def)

lemma should_report_job_eq: "should_report_job name allow_failure = (\<not> allow_failure)"
  by (simp add: should_report_job_def jobs_allowed_to_fail_but_need_report_def)

lemma report_entry_named:
  assumes "get_failed_jobs mapping trace pipeline = Inr report"
  shows "e \<in> set report \<and> fs_full_name e = n \<longleftrightarrow>
     failed_named n (p_jobs pipeline @ p_bridges pipeline) \<noteq> []
     \<and> (\<exists>t. group_trace trace (failed_named n (p_jobs pipeline @ p_bridges pipeline)) = Inr t
           \<and> e = group_final_status mapping n
                    (failed_named n (p_jobs pipeline @ p_bridges pipeline)) t)
     \<and> should_report_job (truncate_job_name n 48)
          (j_allow_failure (canonical (failed_named n (p_jobs pipeline @ p_bridges pipeline))))"
  (is "?L \<longleftrightarrow> ?R")
proof
  let ?J = "p_jobs pipeline @ p_bridges pipeline"
  assume ?L
  then obtain n' t where h: "failed_named n' ?J \<noteq> []"
    "group_trace trace (failed_named n' ?J) = Inr t"
    "e = group_final_status mapping n' (failed_named n' ?J) t" "reported e"
    and fn: "fs_full_name e = n"
    using report_entry_iff [OF assms, of e] by blast
  from h(3) fn have "n' = n" by (simp add: group_final_status_simps)
  with h show ?R by (auto simp: reported_def group_final_status_simps)
next
  let ?J = "p_jobs pipeline @ p_bridges pipeline"
  assume r: ?R
  then obtain t where t: "group_trace trace (failed_named n ?J) = Inr t"
    "e = group_final_status mapping n (failed_named n ?J) t" by blast
  from r have ne: "failed_named n ?J \<noteq> []" by blast
  have "reported e"
    using r t(2) canonical_failed_named [OF ne]
    by (simp add: reported_def group_final_status_simps)
  with ne t have "e \<in> set report" using report_entry_iff [OF assms, of e] by blast
  with t(2) show ?L by (simp add: group_final_status_simps)
qed

lemma group_trace_ok:
  assumes "get_failed_jobs mapping trace pipeline = Inr report"
    and "failed_named n (p_jobs pipeline @ p_bridges pipeline) \<noteq> []"
  shows "\<exists>t. group_trace trace (failed_named n (p_jobs pipeline @ p_bridges pipeline)) = Inr t"
proof -
  let ?J = "p_jobs pipeline @ p_bridges pipeline"
  from assms(2) have "(n, failed_named n ?J) \<in> set (group_failed_jobs ?J [])"
    by (simp add: group_failed_jobs_set)
  with assms(1) show ?thesis unfolding get_failed_jobs_Inr_iff by fastforce
qed

text \<open>
  The first loop keeps only the failed jobs: \<open>lint\<close> failed, was retried and
  succeeded, and is reported from its failed attempt, with a retry summary of one
  status. The comments of the function describe the list of all the jobs of a name and
  a test that excludes the jobs that were retried and succeeded.
\<close>

theorem retried_job_still_reported:
  "j_status (last (sort_key j_created_at
      [ \<lparr> j_class = ProjectJob, j_id = 1, j_name = ''lint'', j_stage = ''test'',
          j_status = ''failed'', j_tag_list = [], j_allow_failure = False,
          j_web_url = ''job/1'', j_created_at = 1, j_failure_reason = Some ''script_failure'' \<rparr>,
        \<lparr> j_class = ProjectJob, j_id = 2, j_name = ''lint'', j_stage = ''test'',
          j_status = ''success'', j_tag_list = [], j_allow_failure = False,
          j_web_url = ''job/2'', j_created_at = 2, j_failure_reason = None \<rparr> ])) = ''success''
   \<and> get_failed_jobs Map.empty (\<lambda>i. Inr ''exit status 1'')
       \<lparr> p_sha = ''abc'', p_web_url = ''pipeline/1'',
         p_jobs =
           [ \<lparr> j_class = ProjectJob, j_id = 1, j_name = ''lint'', j_stage = ''test'',
               j_status = ''failed'', j_tag_list = [], j_allow_failure = False,
               j_web_url = ''job/1'', j_created_at = 1, j_failure_reason = Some ''script_failure'' \<rparr>,
             \<lparr> j_class = ProjectJob, j_id = 2, j_name = ''lint'', j_stage = ''test'',
               j_status = ''success'', j_tag_list = [], j_allow_failure = False,
               j_web_url = ''job/2'', j_created_at = 2, j_failure_reason = None \<rparr> ],
         p_bridges = [] \<rparr>
     = Inr [ \<lparr> fs_name = ''lint'', fs_full_name = ''lint'', fs_id = 1, fs_stage = ''test'',
              fs_status = ''failed'', fs_tag_list = [], fs_allow_failure = False,
              fs_web_url = ''job/1'', fs_retry_summary = [''failed''],
              fs_failure_type = JOB_FAILURE, fs_failure_reason = FAILED_JOB_SCRIPT \<rparr> ]"
  by code_simp

text \<open>
  Against C1 as stated: the latest attempt of \<open>lint\<close> failed, with
  \<open>allow_failure\<close>, and \<open>lint\<close> is not in the report.
\<close>

theorem failed_latest_attempt_counterexample:
  "j_status (last (sort_key j_created_at
      [ \<lparr> j_class = ProjectJob, j_id = 1, j_name = ''lint'', j_stage = ''test'',
          j_status = ''failed'', j_tag_list = [], j_allow_failure = True,
          j_web_url = ''job/1'', j_created_at = 1, j_failure_reason = Some ''script_failure'' \<rparr>,
        \<lparr> j_class = ProjectJob, j_id = 2, j_name = ''lint'', j_stage = ''test'',
          j_status = ''failed'', j_tag_list = [], j_allow_failure = True,
          j_web_url = ''job/2'', j_created_at = 2, j_failure_reason = Some ''script_failure'' \<rparr> ])) = ''failed''
   \<and> get_failed_jobs Map.empty (\<lambda>i. Inr ''exit status 1'')
       \<lparr> p_sha = ''abc'', p_web_url = ''pipeline/1'',
         p_jobs =
           [ \<lparr> j_class = ProjectJob, j_id = 1, j_name = ''lint'', j_stage = ''test'',
               j_status = ''failed'', j_tag_list = [], j_allow_failure = True,
               j_web_url = ''job/1'', j_created_at = 1, j_failure_reason = Some ''script_failure'' \<rparr>,
             \<lparr> j_class = ProjectJob, j_id = 2, j_name = ''lint'', j_stage = ''test'',
               j_status = ''failed'', j_tag_list = [], j_allow_failure = True,
               j_web_url = ''job/2'', j_created_at = 2, j_failure_reason = Some ''script_failure'' \<rparr> ],
         p_bridges = [] \<rparr>
     = Inr []"
  by code_simp

text \<open>
  C1, amended: for a report that was produced and a name \<open>n\<close> of the pipeline, let the
  attempts be all the jobs named \<open>n\<close> sorted by \<open>created_at\<close>. If the latest attempt
  failed, the report has an entry for \<open>n\<close> exactly when \<open>should_report_job\<close> holds of
  the truncated name and the \<open>allow_failure\<close> of that attempt, and such an entry carries
  the id, status and \<open>allow_failure\<close> of the latest attempt; if no attempt failed, the
  report has no entry for \<open>n\<close>. Nothing is said of a name whose latest attempt did not
  fail after an earlier one did.
\<close>

theorem report_of_latest_attempt:
  assumes "get_failed_jobs mapping trace pipeline = Inr report"
    and "attempts = sort_key j_created_at
           (filter (\<lambda>j. j_name j = n) (p_jobs pipeline @ p_bridges pipeline))"
    and "attempts \<noteq> []"
  shows "(j_status (last attempts) = ''failed'' \<longrightarrow>
            ((\<exists>e\<in>set report. fs_full_name e = n) \<longleftrightarrow>
               should_report_job (truncate_job_name n 48) (j_allow_failure (last attempts)))
            \<and> (\<forall>e\<in>set report. fs_full_name e = n \<longrightarrow>
                  fs_id e = j_id (last attempts) \<and> fs_status e = ''failed''
                  \<and> fs_name e = truncate_job_name n 48
                  \<and> fs_allow_failure e = j_allow_failure (last attempts)))
         \<and> ((\<forall>j\<in>set attempts. j_status j \<noteq> ''failed'') \<longrightarrow>
               (\<forall>e\<in>set report. fs_full_name e \<noteq> n))"
proof (intro conjI impI)
  let ?J = "p_jobs pipeline @ p_bridges pipeline"
  assume failed: "j_status (last attempts) = ''failed''"
  have named: "filter (\<lambda>j. j_name j = n) ?J \<noteq> []"
    using assms(2,3) by auto
  have ne: "failed_named n ?J \<noteq> []" and c: "canonical (failed_named n ?J) = last attempts"
    using canonical_latest_attempt [OF named] failed unfolding assms(2) by blast+
  from group_trace_ok [OF assms(1) ne]
  obtain t where t: "group_trace trace (failed_named n ?J) = Inr t" by blast
  show "(\<exists>e\<in>set report. fs_full_name e = n) \<longleftrightarrow>
          should_report_job (truncate_job_name n 48) (j_allow_failure (last attempts))"
    using report_entry_named [OF assms(1), of _ n] ne t c by auto
  show "\<forall>e\<in>set report. fs_full_name e = n \<longrightarrow>
          fs_id e = j_id (last attempts) \<and> fs_status e = ''failed''
          \<and> fs_name e = truncate_job_name n 48
          \<and> fs_allow_failure e = j_allow_failure (last attempts)"
  proof (intro ballI impI)
    fix e assume "e \<in> set report" "fs_full_name e = n"
    then obtain t' where "e = group_final_status mapping n (failed_named n ?J) t'"
      using report_entry_named [OF assms(1), of e n] by blast
    with c failed show "fs_id e = j_id (last attempts) \<and> fs_status e = ''failed''
          \<and> fs_name e = truncate_job_name n 48
          \<and> fs_allow_failure e = j_allow_failure (last attempts)"
      by (simp add: group_final_status_simps)
  qed
next
  let ?J = "p_jobs pipeline @ p_bridges pipeline"
  assume none: "\<forall>j\<in>set attempts. j_status j \<noteq> ''failed''"
  then have "failed_named n ?J = []"
    unfolding assms(2) by (auto simp: failed_named_def filter_empty_conv)
  then show "\<forall>e\<in>set report. fs_full_name e \<noteq> n"
    using report_entry_named [OF assms(1), of _ n] by blast
qed

theorem report_of_latest_attempt_witness:
  "get_failed_jobs Map.empty (\<lambda>i. Inr ''exit status 1'')
       \<lparr> p_sha = ''abc'', p_web_url = ''pipeline/1'',
         p_jobs =
           [ \<lparr> j_class = ProjectJob, j_id = 1, j_name = ''lint'', j_stage = ''test'',
               j_status = ''failed'', j_tag_list = [], j_allow_failure = False,
               j_web_url = ''job/1'', j_created_at = 1, j_failure_reason = Some ''script_failure'' \<rparr>,
             \<lparr> j_class = ProjectJob, j_id = 2, j_name = ''lint'', j_stage = ''test'',
               j_status = ''failed'', j_tag_list = [], j_allow_failure = False,
               j_web_url = ''job/2'', j_created_at = 2, j_failure_reason = Some ''script_failure'' \<rparr>,
             \<lparr> j_class = ProjectJob, j_id = 3, j_name = ''docs'', j_stage = ''test'',
               j_status = ''success'', j_tag_list = [], j_allow_failure = False,
               j_web_url = ''job/3'', j_created_at = 1, j_failure_reason = None \<rparr> ],
         p_bridges = [] \<rparr>
     = Inr [ \<lparr> fs_name = ''lint'', fs_full_name = ''lint'', fs_id = 2, fs_stage = ''test'',
              fs_status = ''failed'', fs_tag_list = [], fs_allow_failure = False,
              fs_web_url = ''job/2'', fs_retry_summary = [''failed'', ''failed''],
              fs_failure_type = JOB_FAILURE, fs_failure_reason = FAILED_JOB_SCRIPT \<rparr> ]
   \<and> sort_key j_created_at (filter (\<lambda>j. j_name j = ''lint'')
       [ \<lparr> j_class = ProjectJob, j_id = 1, j_name = ''lint'', j_stage = ''test'',
           j_status = ''failed'', j_tag_list = [], j_allow_failure = False,
           j_web_url = ''job/1'', j_created_at = 1, j_failure_reason = Some ''script_failure'' \<rparr>,
         \<lparr> j_class = ProjectJob, j_id = 2, j_name = ''lint'', j_stage = ''test'',
           j_status = ''failed'', j_tag_list = [], j_allow_failure = False,
           j_web_url = ''job/2'', j_created_at = 2, j_failure_reason = Some ''script_failure'' \<rparr>,
         \<lparr> j_class = ProjectJob, j_id = 3, j_name = ''docs'', j_stage = ''test'',
           j_status = ''success'', j_tag_list = [], j_allow_failure = False,
           j_web_url = ''job/3'', j_created_at = 1, j_failure_reason = None \<rparr> ])
     = [ \<lparr> j_class = ProjectJob, j_id = 1, j_name = ''lint'', j_stage = ''test'',
           j_status = ''failed'', j_tag_list = [], j_allow_failure = False,
           j_web_url = ''job/1'', j_created_at = 1, j_failure_reason = Some ''script_failure'' \<rparr>,
         \<lparr> j_class = ProjectJob, j_id = 2, j_name = ''lint'', j_stage = ''test'',
           j_status = ''failed'', j_tag_list = [], j_allow_failure = False,
           j_web_url = ''job/2'', j_created_at = 2, j_failure_reason = Some ''script_failure'' \<rparr> ]
   \<and> should_report_job (truncate_job_name ''lint'' 48) False"
  (is "?run \<and> ?sorted \<and> ?reported")
proof -
  let ?pl = "\<lparr> p_sha = ''abc'', p_web_url = ''pipeline/1'',
         p_jobs =
           [ \<lparr> j_class = ProjectJob, j_id = 1, j_name = ''lint'', j_stage = ''test'',
               j_status = ''failed'', j_tag_list = [], j_allow_failure = False,
               j_web_url = ''job/1'', j_created_at = 1, j_failure_reason = Some ''script_failure'' \<rparr>,
             \<lparr> j_class = ProjectJob, j_id = 2, j_name = ''lint'', j_stage = ''test'',
               j_status = ''failed'', j_tag_list = [], j_allow_failure = False,
               j_web_url = ''job/2'', j_created_at = 2, j_failure_reason = Some ''script_failure'' \<rparr>,
             \<lparr> j_class = ProjectJob, j_id = 3, j_name = ''docs'', j_stage = ''test'',
               j_status = ''success'', j_tag_list = [], j_allow_failure = False,
               j_web_url = ''job/3'', j_created_at = 1, j_failure_reason = None \<rparr> ],
         p_bridges = [] \<rparr>"
  let ?e = "\<lparr> fs_name = ''lint'', fs_full_name = ''lint'', fs_id = 2, fs_stage = ''test'',
              fs_status = ''failed'', fs_tag_list = [], fs_allow_failure = False,
              fs_web_url = ''job/2'', fs_retry_summary = [''failed'', ''failed''],
              fs_failure_type = JOB_FAILURE, fs_failure_reason = FAILED_JOB_SCRIPT \<rparr>"
  let ?att = "[ \<lparr> j_class = ProjectJob, j_id = 1, j_name = ''lint'', j_stage = ''test'',
           j_status = ''failed'', j_tag_list = [], j_allow_failure = False,
           j_web_url = ''job/1'', j_created_at = 1, j_failure_reason = Some ''script_failure'' \<rparr>,
         \<lparr> j_class = ProjectJob, j_id = 2, j_name = ''lint'', j_stage = ''test'',
           j_status = ''failed'', j_tag_list = [], j_allow_failure = False,
           j_web_url = ''job/2'', j_created_at = 2, j_failure_reason = Some ''script_failure'' \<rparr> ]"
  have run: ?run by code_simp
  have sorted: ?sorted by code_simp
  have att: "?att = sort_key j_created_at
      (filter (\<lambda>j. j_name j = ''lint'') (p_jobs ?pl @ p_bridges ?pl))"
    using sorted by simp
  have ne: "?att \<noteq> []" by simp
  have "\<exists>e\<in>set [?e]. fs_full_name e = ''lint''" by simp
  moreover have "j_status (last ?att) = ''failed''" by simp
  ultimately have "should_report_job (truncate_job_name ''lint'' 48) (j_allow_failure (last ?att))"
    using report_of_latest_attempt [OF run att ne] by blast
  then have ?reported by simp
  with run sorted show ?thesis by blast
qed

text \<open>
  Against C2 as stated: the fetch of the trace of \<open>lint\<close> fails, and the function
  returns that error; no report is produced and \<open>build\<close> is not processed.
\<close>

theorem trace_error_counterexample:
  "get_failed_jobs Map.empty
       (\<lambda>i. if i = 1 then Inl (GitlabError ''403 Forbidden'') else Inr ''exit status 1'')
       \<lparr> p_sha = ''abc'', p_web_url = ''pipeline/1'',
         p_jobs =
           [ \<lparr> j_class = ProjectJob, j_id = 1, j_name = ''lint'', j_stage = ''test'',
               j_status = ''failed'', j_tag_list = [], j_allow_failure = False,
               j_web_url = ''job/1'', j_created_at = 1, j_failure_reason = Some ''script_failure'' \<rparr>,
             \<lparr> j_class = ProjectJob, j_id = 2, j_name = ''build'', j_stage = ''build'',
               j_status = ''failed'', j_tag_list = [], j_allow_failure = False,
               j_web_url = ''job/2'', j_created_at = 2, j_failure_reason = Some ''script_failure'' \<rparr> ],
         p_bridges = [] \<rparr>
     = Inl (GitlabError ''403 Forbidden'')"
  by code_simp

text \<open>
  C2, amended: when the latest attempt of a name failed, is not a bridge, and the fetch of
  its trace raises an error, \<open>get_failed_jobs\<close> returns no report: it ends with an error
  raised by the fetch of a trace of one of the jobs of the pipeline.
\<close>

theorem trace_error_aborts:
  assumes "filter (\<lambda>j. j_name j = n) (p_jobs pipeline @ p_bridges pipeline) \<noteq> []"
    and "job = last (sort_key j_created_at
                 (filter (\<lambda>j. j_name j = n) (p_jobs pipeline @ p_bridges pipeline)))"
    and "j_status job = ''failed''"
    and "j_class job \<noteq> ProjectPipelineBridge"
    and "trace (j_id job) = Inl e"
  shows "\<exists>e'. get_failed_jobs mapping trace pipeline = Inl e'
           \<and> (\<exists>job'\<in>set (p_jobs pipeline @ p_bridges pipeline). trace (j_id job') = Inl e')"
proof -
  let ?J = "p_jobs pipeline @ p_bridges pipeline"
  have ne: "failed_named n ?J \<noteq> []" and c: "canonical (failed_named n ?J) = job"
    using canonical_latest_attempt [OF assms(1)] assms(2,3) by blast+
  have "group_trace trace (failed_named n ?J) = Inl e"
    using c assms(4,5) by (simp add: group_trace_def)
  from get_failed_jobs_Inl [OF ne this, of mapping]
  obtain e' n' where r: "get_failed_jobs mapping trace pipeline = Inl e'"
    "failed_named n' ?J \<noteq> []" "group_trace trace (failed_named n' ?J) = Inl e'" by blast
  from r(3) have "trace (j_id (canonical (failed_named n' ?J))) = Inl e'"
    by (auto simp: group_trace_def split: if_splits)
  moreover have "canonical (failed_named n' ?J) \<in> set ?J"
    using canonical_failed_named [OF r(2)] by blast
  ultimately show ?thesis using r(1) by blast
qed

theorem trace_error_aborts_witness:
  "\<lparr> j_class = ProjectJob, j_id = 7, j_name = ''unit_tests'', j_stage = ''test'',
      j_status = ''failed'', j_tag_list = [], j_allow_failure = False,
      j_web_url = ''job/7'', j_created_at = 4, j_failure_reason = Some ''script_failure'' \<rparr>
     = last (sort_key j_created_at (filter (\<lambda>j. j_name j = ''unit_tests'')
         ([ \<lparr> j_class = ProjectJob, j_id = 7, j_name = ''unit_tests'', j_stage = ''test'',
              j_status = ''failed'', j_tag_list = [], j_allow_failure = False,
              j_web_url = ''job/7'', j_created_at = 4, j_failure_reason = Some ''script_failure'' \<rparr> ]
          @ [ \<lparr> j_class = ProjectPipelineBridge, j_id = 9, j_name = ''trigger'', j_stage = ''deploy'',
              j_status = ''failed'', j_tag_list = [], j_allow_failure = False,
              j_web_url = ''job/9'', j_created_at = 5, j_failure_reason = None \<rparr> ])))
   \<and> isl (get_failed_jobs Map.empty
         (\<lambda>i. if i = 7 then Inl (GitlabError ''timeout'') else Inr [])
         \<lparr> p_sha = ''abc'', p_web_url = ''pipeline/1'',
         p_jobs =
           [ \<lparr> j_class = ProjectJob, j_id = 7, j_name = ''unit_tests'', j_stage = ''test'',
               j_status = ''failed'', j_tag_list = [], j_allow_failure = False,
               j_web_url = ''job/7'', j_created_at = 4, j_failure_reason = Some ''script_failure'' \<rparr> ],
         p_bridges = [ \<lparr> j_class = ProjectPipelineBridge, j_id = 9, j_name = ''trigger'', j_stage = ''deploy'',
                         j_status = ''failed'', j_tag_list = [], j_allow_failure = False,
                         j_web_url = ''job/9'', j_created_at = 5, j_failure_reason = None \<rparr> ] \<rparr>)"
  (is "?latest \<and> ?aborts")
proof -
  let ?pl = "\<lparr> p_sha = ''abc'', p_web_url = ''pipeline/1'',
         p_jobs =
           [ \<lparr> j_class = ProjectJob, j_id = 7, j_name = ''unit_tests'', j_stage = ''test'',
               j_status = ''failed'', j_tag_list = [], j_allow_failure = False,
               j_web_url = ''job/7'', j_created_at = 4, j_failure_reason = Some ''script_failure'' \<rparr> ],
         p_bridges = [ \<lparr> j_class = ProjectPipelineBridge, j_id = 9, j_name = ''trigger'', j_stage = ''deploy'',
                         j_status = ''failed'', j_tag_list = [], j_allow_failure = False,
                         j_web_url = ''job/9'', j_created_at = 5, j_failure_reason = None \<rparr> ] \<rparr>"
  let ?job = "\<lparr> j_class = ProjectJob, j_id = 7, j_name = ''unit_tests'', j_stage = ''test'',
      j_status = ''failed'', j_tag_list = [], j_allow_failure = False,
      j_web_url = ''job/7'', j_created_at = 4, j_failure_reason = Some ''script_failure'' \<rparr>"
  let ?tr = "(\<lambda>i. if i = 7 then Inl (GitlabError ''timeout'') else Inr [])"
  have latest: ?latest by code_simp
  have a1: "filter (\<lambda>j. j_name j = ''unit_tests'') (p_jobs ?pl @ p_bridges ?pl) \<noteq> []"
    by simp
  have a2: "?job = last (sort_key j_created_at
              (filter (\<lambda>j. j_name j = ''unit_tests'') (p_jobs ?pl @ p_bridges ?pl)))"
    using latest by simp
  have a3: "j_status ?job = ''failed''" by simp
  have a4: "j_class ?job \<noteq> ProjectPipelineBridge" by simp
  have a5: "?tr (j_id ?job) = Inl (GitlabError ''timeout'')" by simp
  from trace_error_aborts [where n = "''unit_tests''" and pipeline = ?pl and job = ?job
      and trace = ?tr and e = "GitlabError ''timeout''" and mapping = Map.empty,
      OF a1 a2 a3 a4 a5]
  obtain e' where "get_failed_jobs Map.empty ?tr ?pl = Inl e'" by blast
  then have ?aborts by simp
  with latest show ?thesis by blast
qed

text \<open>
  Against C3 as stated: a failed job with \<open>allow_failure\<close> is not kept in the report;
  the report of a pipeline with this one job is empty.
\<close>

theorem allowed_failure_counterexample:
  "get_failed_jobs Map.empty (\<lambda>i. Inr ''exit status 1'')
       \<lparr> p_sha = ''abc'', p_web_url = ''pipeline/1'',
         p_jobs =
           [ \<lparr> j_class = ProjectJob, j_id = 1, j_name = ''lint'', j_stage = ''test'',
               j_status = ''failed'', j_tag_list = [], j_allow_failure = True,
               j_web_url = ''job/1'', j_created_at = 1, j_failure_reason = Some ''script_failure'' \<rparr> ],
         p_bridges = [] \<rparr>
     = Inr []"
  by code_simp

text \<open>
  C3, amended: \<open>jobs_allowed_to_fail_but_need_report\<close> is empty, so
  \<open>should_report_job\<close> is the negation of \<open>allow_failure\<close>. Every entry of the report
  is failed, has \<open>allow_failure\<close> false and is built from a failed job of the pipeline
  with the same name, id and \<open>allow_failure\<close>; a name whose latest attempt failed with
  \<open>allow_failure\<close> true has no entry in the report at all.
\<close>

theorem report_has_no_allowed_failure:
  assumes "get_failed_jobs mapping trace pipeline = Inr report"
  shows "(\<forall>name allow_failure. should_report_job name allow_failure = (\<not> allow_failure))
     \<and> (\<forall>e\<in>set report. fs_status e = ''failed'' \<and> \<not> fs_allow_failure e
           \<and> (\<exists>job\<in>set (p_jobs pipeline @ p_bridges pipeline).
                 j_status job = ''failed'' \<and> j_name job = fs_full_name e
                 \<and> j_id job = fs_id e \<and> j_allow_failure job = fs_allow_failure e))
     \<and> (\<forall>n. filter (\<lambda>j. j_name j = n) (p_jobs pipeline @ p_bridges pipeline) \<noteq> []
            \<and> j_status (last (sort_key j_created_at
                 (filter (\<lambda>j. j_name j = n) (p_jobs pipeline @ p_bridges pipeline)))) = ''failed''
            \<and> j_allow_failure (last (sort_key j_created_at
                 (filter (\<lambda>j. j_name j = n) (p_jobs pipeline @ p_bridges pipeline)))) \<longrightarrow>
          (\<forall>e\<in>set report. fs_full_name e \<noteq> n))"
proof (intro conjI allI ballI impI)
  show "should_report_job name allow_failure = (\<not> allow_failure)" for name allow_failure
    by (rule should_report_job_eq)
next
  let ?J = "p_jobs pipeline @ p_bridges pipeline"
  fix e assume "e \<in> set report"
  then obtain n t where h: "failed_named n ?J \<noteq> []"
    "e = group_final_status mapping n (failed_named n ?J) t" "reported e"
    using report_entry_iff [OF assms, of e] by blast
  from h(3) show "fs_status e = ''failed''" by (simp add: reported_def)
  from h(3) show "\<not> fs_allow_failure e" by (simp add: reported_def should_report_job_eq)
  from canonical_failed_named [OF h(1)] h(2)
  show "\<exists>job\<in>set ?J. j_status job = ''failed'' \<and> j_name job = fs_full_name e
                 \<and> j_id job = fs_id e \<and> j_allow_failure job = fs_allow_failure e"
    by (intro bexI[of _ "canonical (failed_named n ?J)"]) (simp_all add: group_final_status_simps)
next
  let ?J = "p_jobs pipeline @ p_bridges pipeline"
  fix n e
  assume h: "filter (\<lambda>j. j_name j = n) ?J \<noteq> []
            \<and> j_status (last (sort_key j_created_at (filter (\<lambda>j. j_name j = n) ?J))) = ''failed''
            \<and> j_allow_failure (last (sort_key j_created_at (filter (\<lambda>j. j_name j = n) ?J)))"
    and e: "e \<in> set report"
  have c: "canonical (failed_named n ?J) = last (sort_key j_created_at (filter (\<lambda>j. j_name j = n) ?J))"
    using canonical_latest_attempt(2) [of n ?J] h by blast
  show "fs_full_name e \<noteq> n"
  proof
    assume "fs_full_name e = n"
    with e have "should_report_job (truncate_job_name n 48)
                   (j_allow_failure (canonical (failed_named n ?J)))"
      using report_entry_named [OF assms, of e n] by blast
    with c h show False by (simp add: should_report_job_eq)
  qed
qed

theorem report_has_no_allowed_failure_witness:
  "get_failed_jobs Map.empty (\<lambda>i. Inr ''exit status 1'')
       \<lparr> p_sha = ''abc'', p_web_url = ''pipeline/1'',
         p_jobs =
           [ \<lparr> j_class = ProjectJob, j_id = 1, j_name = ''lint'', j_stage = ''test'',
               j_status = ''failed'', j_tag_list = [], j_allow_failure = True,
               j_web_url = ''job/1'', j_created_at = 1, j_failure_reason = Some ''script_failure'' \<rparr>,
             \<lparr> j_class = ProjectJob, j_id = 2, j_name = ''build'', j_stage = ''build'',
               j_status = ''failed'', j_tag_list = [], j_allow_failure = False,
               j_web_url = ''job/2'', j_created_at = 2, j_failure_reason = Some ''script_failure'' \<rparr> ],
         p_bridges = [] \<rparr>
     = Inr [ \<lparr> fs_name = ''build'', fs_full_name = ''build'', fs_id = 2, fs_stage = ''build'',
              fs_status = ''failed'', fs_tag_list = [], fs_allow_failure = False,
              fs_web_url = ''job/2'', fs_retry_summary = [''failed''],
              fs_failure_type = JOB_FAILURE, fs_failure_reason = FAILED_JOB_SCRIPT \<rparr> ]
   \<and> length (filter (\<lambda>e. fs_full_name e = ''lint'')
         (projr (get_failed_jobs Map.empty (\<lambda>i. Inr ''exit status 1'')
           \<lparr> p_sha = ''abc'', p_web_url = ''pipeline/1'',
         p_jobs =
           [ \<lparr> j_class = ProjectJob, j_id = 1, j_name = ''lint'', j_stage = ''test'',
               j_status = ''failed'', j_tag_list = [], j_allow_failure = True,
               j_web_url = ''job/1'', j_created_at = 1, j_failure_reason = Some ''script_failure'' \<rparr>,
             \<lparr> j_class = ProjectJob, j_id = 2, j_name = ''build'', j_stage = ''build'',
               j_status = ''failed'', j_tag_list = [], j_allow_failure = False,
               j_web_url = ''job/2'', j_created_at = 2, j_failure_reason = Some ''script_failure'' \<rparr> ],
         p_bridges = [] \<rparr>))) = 0"
  (is "?run \<and> ?dropped")
proof -
  let ?pl = "\<lparr> p_sha = ''abc'', p_web_url = ''pipeline/1'',
         p_jobs =
           [ \<lparr> j_class = ProjectJob, j_id = 1, j_name = ''lint'', j_stage = ''test'',
               j_status = ''failed'', j_tag_list = [], j_allow_failure = True,
               j_web_url = ''job/1'', j_created_at = 1, j_failure_reason = Some ''script_failure'' \<rparr>,
             \<lparr> j_class = ProjectJob, j_id = 2, j_name = ''build'', j_stage = ''build'',
               j_status = ''failed'', j_tag_list = [], j_allow_failure = False,
               j_web_url = ''job/2'', j_created_at = 2, j_failure_reason = Some ''script_failure'' \<rparr> ],
         p_bridges = [] \<rparr>"
  let ?e = "\<lparr> fs_name = ''build'', fs_full_name = ''build'', fs_id = 2, fs_stage = ''build'',
              fs_status = ''failed'', fs_tag_list = [], fs_allow_failure = False,
              fs_web_url = ''job/2'', fs_retry_summary = [''failed''],
              fs_failure_type = JOB_FAILURE, fs_failure_reason = FAILED_JOB_SCRIPT \<rparr>"
  have run: ?run by code_simp
  have "filter (\<lambda>j. j_name j = ''lint'') (p_jobs ?pl @ p_bridges ?pl) \<noteq> []
      \<and> j_status (last (sort_key j_created_at
            (filter (\<lambda>j. j_name j = ''lint'') (p_jobs ?pl @ p_bridges ?pl)))) = ''failed''
      \<and> j_allow_failure (last (sort_key j_created_at
            (filter (\<lambda>j. j_name j = ''lint'') (p_jobs ?pl @ p_bridges ?pl))))"
    by code_simp
  then have "\<forall>e\<in>set [?e]. fs_full_name e \<noteq> ''lint''"
    using report_has_no_allowed_failure [OF run] by blast
  then have "filter (\<lambda>e. fs_full_name e = ''lint'') [?e] = []"
    by (simp only: filter_empty_conv)
  then have ?dropped using run by simp
  with run show ?thesis by blast
qed

subsection \<open>Permutations of the jobs\<close>

lemma map_const_replicate:
  "\<forall>x\<in>set xs. f x = c \<Longrightarrow> map f xs = replicate (length xs) c"
  by (induction xs) auto

lemma retry_summary_failed_named:
  "map j_status (sort_key j_created_at (failed_named n jobs))
     = replicate (length (failed_named n jobs)) ''failed''"
proof -
  have "\<forall>x\<in>set (sort_key j_created_at (failed_named n jobs)). j_status x = ''failed''"
    by (simp add: failed_named_def)
  from map_const_replicate [OF this] show ?thesis by simp
qed

lemma failed_named_perm:
  "mset jobs = mset jobs' \<Longrightarrow> mset (failed_named n jobs) = mset (failed_named n jobs')"
  by (simp add: failed_named_def)

lemma failed_named_perm_length:
  "mset jobs = mset jobs' \<Longrightarrow> length (failed_named n jobs) = length (failed_named n jobs')"
  using failed_named_perm [of jobs jobs' n] by (metis size_mset)

lemma sorted_group_perm:
  assumes "mset jobs = mset jobs'"
    and "\<forall>a\<in>set jobs. \<forall>b\<in>set jobs.
           j_name a = j_name b \<and> j_created_at a = j_created_at b \<longrightarrow> a = b"
  shows "sort_key j_created_at (failed_named n jobs)
           = sort_key j_created_at (failed_named n jobs')"
proof (rule sort_key_inj_key_eq)
  show "mset (failed_named n jobs) = mset (sort_key j_created_at (failed_named n jobs'))"
    using failed_named_perm [OF assms(1), of n] by simp
  show "inj_on j_created_at (set (failed_named n jobs))"
    using assms(2) by (auto simp: inj_on_def failed_named_def)
  show "sorted (map j_created_at (sort_key j_created_at (failed_named n jobs')))"
    by (rule sorted_sort_key)
qed

lemma same_sorted_group:
  assumes "sort_key j_created_at js = sort_key j_created_at js'"
  shows "canonical js = canonical js'"
    and "group_trace trace js = group_trace trace js'"
    and "group_final_status mapping n js t = group_final_status mapping n js' t"
proof -
  show c: "canonical js = canonical js'" using assms by (simp add: canonical_def)
  show "group_trace trace js = group_trace trace js'" using c by (simp add: group_trace_def)
  show "group_final_status mapping n js t = group_final_status mapping n js' t"
    using c assms by (simp add: group_final_status_def)
qed

lemma report_perm_subset:
  assumes perm: "mset (p_jobs pipeline @ p_bridges pipeline)
                   = mset (p_jobs pipeline' @ p_bridges pipeline')"
    and distinct_times: "\<forall>a\<in>set (p_jobs pipeline @ p_bridges pipeline).
           \<forall>b\<in>set (p_jobs pipeline @ p_bridges pipeline).
             j_name a = j_name b \<and> j_created_at a = j_created_at b \<longrightarrow> a = b"
    and r: "get_failed_jobs mapping trace pipeline = Inr report"
    and r': "get_failed_jobs mapping trace pipeline' = Inr report'"
  shows "set report \<subseteq> set report'"
proof
  let ?J = "p_jobs pipeline @ p_bridges pipeline"
  let ?J' = "p_jobs pipeline' @ p_bridges pipeline'"
  fix e assume "e \<in> set report"
  then obtain n t where h: "failed_named n ?J \<noteq> []"
    "group_trace trace (failed_named n ?J) = Inr t"
    "e = group_final_status mapping n (failed_named n ?J) t" "reported e"
    using report_entry_iff [OF r, of e] by blast
  have s: "sort_key j_created_at (failed_named n ?J) = sort_key j_created_at (failed_named n ?J')"
    by (rule sorted_group_perm [OF perm distinct_times])
  have "failed_named n ?J' \<noteq> []"
    using h(1) failed_named_perm_length [OF perm, of n] by auto
  moreover have "group_trace trace (failed_named n ?J') = Inr t"
    using h(2) same_sorted_group(2) [OF s] by simp
  moreover have "e = group_final_status mapping n (failed_named n ?J') t"
    using h(3) same_sorted_group(3) [OF s] by simp
  ultimately show "e \<in> set report'"
    using h(4) report_entry_iff [OF r', of e] by blast
qed

lemma report_perm_defined:
  assumes perm: "mset (p_jobs pipeline @ p_bridges pipeline)
                   = mset (p_jobs pipeline' @ p_bridges pipeline')"
    and distinct_times: "\<forall>a\<in>set (p_jobs pipeline @ p_bridges pipeline).
           \<forall>b\<in>set (p_jobs pipeline @ p_bridges pipeline).
             j_name a = j_name b \<and> j_created_at a = j_created_at b \<longrightarrow> a = b"
    and r: "get_failed_jobs mapping trace pipeline = Inr report"
  shows "\<exists>report'. get_failed_jobs mapping trace pipeline' = Inr report'"
proof -
  let ?J = "p_jobs pipeline @ p_bridges pipeline"
  let ?J' = "p_jobs pipeline' @ p_bridges pipeline'"
  have "\<forall>g\<in>set (group_failed_jobs ?J' []). \<exists>t. group_trace trace (snd g) = Inr t"
  proof
    fix g assume g: "g \<in> set (group_failed_jobs ?J' [])"
    obtain n js where gp: "g = (n, js)" by (cases g)
    with g have js: "js = failed_named n ?J' \<and> js \<noteq> []"
      using group_failed_jobs_set [of n js ?J'] by blast
    then have "failed_named n ?J \<noteq> []"
      using failed_named_perm_length [OF perm, of n] by auto
    from group_trace_ok [OF r this]
    obtain t where "group_trace trace (failed_named n ?J) = Inr t" by blast
    moreover have "sort_key j_created_at (failed_named n ?J)
                     = sort_key j_created_at (failed_named n ?J')"
      by (rule sorted_group_perm [OF perm distinct_times])
    ultimately have "group_trace trace (failed_named n ?J') = Inr t"
      using same_sorted_group(2) by metis
    with js gp show "\<exists>t. group_trace trace (snd g) = Inr t" by simp
  qed
  then show ?thesis by (simp add: get_failed_jobs_Inr_iff)
qed

text \<open>
  Against C5 as stated: two failed attempts of \<open>lint\<close> with the same \<open>created_at\<close>.
  The sort is stable, so the later one in the input is the job reported: the two orders
  of the same jobs give reports with different ids.
\<close>

theorem permutation_counterexample:
  "mset [ \<lparr> j_class = ProjectJob, j_id = 1, j_name = ''lint'', j_stage = ''test'',
           j_status = ''failed'', j_tag_list = [], j_allow_failure = False,
           j_web_url = ''job/1'', j_created_at = 5, j_failure_reason = Some ''script_failure'' \<rparr>,
         \<lparr> j_class = ProjectJob, j_id = 2, j_name = ''lint'', j_stage = ''test'',
           j_status = ''failed'', j_tag_list = [], j_allow_failure = False,
           j_web_url = ''job/2'', j_created_at = 5, j_failure_reason = Some ''script_failure'' \<rparr> ]
     = mset [ \<lparr> j_class = ProjectJob, j_id = 2, j_name = ''lint'', j_stage = ''test'',
           j_status = ''failed'', j_tag_list = [], j_allow_failure = False,
           j_web_url = ''job/2'', j_created_at = 5, j_failure_reason = Some ''script_failure'' \<rparr>,
         \<lparr> j_class = ProjectJob, j_id = 1, j_name = ''lint'', j_stage = ''test'',
           j_status = ''failed'', j_tag_list = [], j_allow_failure = False,
           j_web_url = ''job/1'', j_created_at = 5, j_failure_reason = Some ''script_failure'' \<rparr> ]
   \<and> get_failed_jobs Map.empty (\<lambda>i. Inr ''exit status 1'')
       \<lparr> p_sha = ''abc'', p_web_url = ''pipeline/1'',
         p_jobs =
           [ \<lparr> j_class = ProjectJob, j_id = 1, j_name = ''lint'', j_stage = ''test'',
               j_status = ''failed'', j_tag_list = [], j_allow_failure = False,
               j_web_url = ''job/1'', j_created_at = 5, j_failure_reason = Some ''script_failure'' \<rparr>,
             \<lparr> j_class = ProjectJob, j_id = 2, j_name = ''lint'', j_stage = ''test'',
               j_status = ''failed'', j_tag_list = [], j_allow_failure = False,
               j_web_url = ''job/2'', j_created_at = 5, j_failure_reason = Some ''script_failure'' \<rparr> ],
         p_bridges = [] \<rparr>
     = Inr [ \<lparr> fs_name = ''lint'', fs_full_name = ''lint'', fs_id = 2, fs_stage = ''test'',
              fs_status = ''failed'', fs_tag_list = [], fs_allow_failure = False,
              fs_web_url = ''job/2'', fs_retry_summary = [''failed'', ''failed''],
              fs_failure_type = JOB_FAILURE, fs_failure_reason = FAILED_JOB_SCRIPT \<rparr> ]
   \<and> get_failed_jobs Map.empty (\<lambda>i. Inr ''exit status 1'')
       \<lparr> p_sha = ''abc'', p_web_url = ''pipeline/1'',
         p_jobs =
           [ \<lparr> j_class = ProjectJob, j_id = 2, j_name = ''lint'', j_stage = ''test'',
               j_status = ''failed'', j_tag_list = [], j_allow_failure = False,
               j_web_url = ''job/2'', j_created_at = 5, j_failure_reason = Some ''script_failure'' \<rparr>,
             \<lparr> j_class = ProjectJob, j_id = 1, j_name = ''lint'', j_stage = ''test'',
               j_status = ''failed'', j_tag_list = [], j_allow_failure = False,
               j_web_url = ''job/1'', j_created_at = 5, j_failure_reason = Some ''script_failure'' \<rparr> ],
         p_bridges = [] \<rparr>
     = Inr [ \<lparr> fs_name = ''lint'', fs_full_name = ''lint'', fs_id = 1, fs_stage = ''test'',
              fs_status = ''failed'', fs_tag_list = [], fs_allow_failure = False,
              fs_web_url = ''job/1'', fs_retry_summary = [''failed'', ''failed''],
              fs_failure_type = JOB_FAILURE, fs_failure_reason = FAILED_JOB_SCRIPT \<rparr> ]"
  (is "?perm \<and> ?first \<and> ?second")
proof -
  have ?perm by simp
  moreover have ?first by code_simp
  moreover have ?second by code_simp
  ultimately show ?thesis by blast
qed

text \<open>
  C5, amended: in a report that was produced, the retry summary of every entry is not
  empty and ends with the status of the entry, and for a name all of whose jobs failed it
  is the list of the statuses of all the jobs of that name in the order of
  \<open>created_at\<close>, one per job. For a permutation of the jobs, the entries of such a
  name in the two reports have the same retry summary; and when no two jobs of a name
  share a \<open>created_at\<close>, the permuted pipeline gives a report with the same entries.
\<close>

theorem retry_summary_permutation:
  assumes perm: "mset (p_jobs pipeline @ p_bridges pipeline)
                   = mset (p_jobs pipeline' @ p_bridges pipeline')"
    and r: "get_failed_jobs mapping trace pipeline = Inr report"
  shows "(\<forall>e\<in>set report.
            fs_retry_summary e \<noteq> [] \<and> last (fs_retry_summary e) = fs_status e
            \<and> ((\<forall>j\<in>set (p_jobs pipeline @ p_bridges pipeline).
                   j_name j = fs_full_name e \<longrightarrow> j_status j = ''failed'') \<longrightarrow>
                 fs_retry_summary e
                   = map j_status (sort_key j_created_at
                       (filter (\<lambda>j. j_name j = fs_full_name e)
                          (p_jobs pipeline @ p_bridges pipeline)))))
     \<and> (\<forall>report'. get_failed_jobs mapping trace pipeline' = Inr report' \<longrightarrow>
           (\<forall>e\<in>set report. \<forall>e'\<in>set report'.
              fs_full_name e = fs_full_name e'
              \<and> (\<forall>j\<in>set (p_jobs pipeline @ p_bridges pipeline).
                     j_name j = fs_full_name e \<longrightarrow> j_status j = ''failed'') \<longrightarrow>
              fs_retry_summary e = fs_retry_summary e'))
     \<and> ((\<forall>a\<in>set (p_jobs pipeline @ p_bridges pipeline).
           \<forall>b\<in>set (p_jobs pipeline @ p_bridges pipeline).
             j_name a = j_name b \<and> j_created_at a = j_created_at b \<longrightarrow> a = b) \<longrightarrow>
         (\<exists>report'. get_failed_jobs mapping trace pipeline' = Inr report'
                     \<and> set report' = set report))"
proof (intro conjI)
  let ?J = "p_jobs pipeline @ p_bridges pipeline"
  let ?J' = "p_jobs pipeline' @ p_bridges pipeline'"
  show "\<forall>e\<in>set report.
            fs_retry_summary e \<noteq> [] \<and> last (fs_retry_summary e) = fs_status e
            \<and> ((\<forall>j\<in>set ?J. j_name j = fs_full_name e \<longrightarrow> j_status j = ''failed'') \<longrightarrow>
                 fs_retry_summary e
                   = map j_status (sort_key j_created_at
                       (filter (\<lambda>j. j_name j = fs_full_name e) ?J)))"
  proof
    fix e assume "e \<in> set report"
    then obtain n t where h: "failed_named n ?J \<noteq> []"
      "e = group_final_status mapping n (failed_named n ?J) t"
      using report_entry_iff [OF r, of e] by blast
    have sne: "sort_key j_created_at (failed_named n ?J) \<noteq> []"
      using h(1) by (metis length_sort length_0_conv)
    have a: "fs_retry_summary e \<noteq> []"
      using h(2) sne by (simp add: group_final_status_simps)
    have b: "last (fs_retry_summary e) = fs_status e"
      using h(2) sne by (simp add: group_final_status_simps last_map canonical_def)
    have c: "fs_retry_summary e
               = map j_status (sort_key j_created_at (filter (\<lambda>j. j_name j = fs_full_name e) ?J))"
      if "\<forall>j\<in>set ?J. j_name j = fs_full_name e \<longrightarrow> j_status j = ''failed''"
    proof -
      have "failed_named n ?J = filter (\<lambda>j. j_name j = n) ?J"
        unfolding failed_named_def using that h(2)
        by (intro filter_cong) (auto simp: group_final_status_simps)
      with h(2) show ?thesis by (simp add: group_final_status_simps)
    qed
    from a b c show "fs_retry_summary e \<noteq> [] \<and> last (fs_retry_summary e) = fs_status e
            \<and> ((\<forall>j\<in>set ?J. j_name j = fs_full_name e \<longrightarrow> j_status j = ''failed'') \<longrightarrow>
                 fs_retry_summary e
                   = map j_status (sort_key j_created_at
                       (filter (\<lambda>j. j_name j = fs_full_name e) ?J)))"
      by blast
  qed
  show "\<forall>report'. get_failed_jobs mapping trace pipeline' = Inr report' \<longrightarrow>
           (\<forall>e\<in>set report. \<forall>e'\<in>set report'.
              fs_full_name e = fs_full_name e'
              \<and> (\<forall>j\<in>set ?J. j_name j = fs_full_name e \<longrightarrow> j_status j = ''failed'') \<longrightarrow>
              fs_retry_summary e = fs_retry_summary e')"
  proof (intro allI impI ballI)
    fix report' e e'
    assume r': "get_failed_jobs mapping trace pipeline' = Inr report'"
      and e: "e \<in> set report" and e': "e' \<in> set report'"
      and hyp: "fs_full_name e = fs_full_name e'
              \<and> (\<forall>j\<in>set ?J. j_name j = fs_full_name e \<longrightarrow> j_status j = ''failed'')"
    from hyp have same: "fs_full_name e = fs_full_name e'" by blast
    obtain n t where h: "e = group_final_status mapping n (failed_named n ?J) t"
      using report_entry_iff [OF r, of e] e by blast
    obtain n' t' where h': "e' = group_final_status mapping n' (failed_named n' ?J') t'"
      using report_entry_iff [OF r', of e'] e' by blast
    from same h h' have "n' = n" by (simp add: group_final_status_simps)
    with h h' show "fs_retry_summary e = fs_retry_summary e'"
      using failed_named_perm_length [OF perm, of n]
      by (simp add: group_final_status_simps retry_summary_failed_named)
  qed
  show "(\<forall>a\<in>set ?J. \<forall>b\<in>set ?J.
             j_name a = j_name b \<and> j_created_at a = j_created_at b \<longrightarrow> a = b) \<longrightarrow>
         (\<exists>report'. get_failed_jobs mapping trace pipeline' = Inr report'
                     \<and> set report' = set report)"
  proof
    assume d: "\<forall>a\<in>set ?J. \<forall>b\<in>set ?J.
             j_name a = j_name b \<and> j_created_at a = j_created_at b \<longrightarrow> a = b"
    from report_perm_defined [OF perm d r]
    obtain report' where r': "get_failed_jobs mapping trace pipeline' = Inr report'" by blast
    have "set ?J' = set ?J" using perm by (metis set_mset_mset)
    with d have d': "\<forall>a\<in>set ?J'. \<forall>b\<in>set ?J'.
             j_name a = j_name b \<and> j_created_at a = j_created_at b \<longrightarrow> a = b" by simp
    have "set report \<subseteq> set report'" by (rule report_perm_subset [OF perm d r r'])
    moreover have "set report' \<subseteq> set report"
      by (rule report_perm_subset [OF perm [symmetric] d' r' r])
    ultimately show "\<exists>report'. get_failed_jobs mapping trace pipeline' = Inr report'
                     \<and> set report' = set report"
      using r' by blast
  qed
qed

theorem retry_summary_permutation_witness:
  "get_failed_jobs Map.empty (\<lambda>i. Inr ''exit status 1'')
       \<lparr> p_sha = ''abc'', p_web_url = ''pipeline/1'',
         p_jobs =
           [ \<lparr> j_class = ProjectJob, j_id = 1, j_name = ''lint'', j_stage = ''test'',
               j_status = ''failed'', j_tag_list = [], j_allow_failure = False,
               j_web_url = ''job/1'', j_created_at = 1, j_failure_reason = Some ''script_failure'' \<rparr>,
             \<lparr> j_class = ProjectJob, j_id = 2, j_name = ''lint'', j_stage = ''test'',
               j_status = ''failed'', j_tag_list = [], j_allow_failure = False,
               j_web_url = ''job/2'', j_created_at = 2, j_failure_reason = Some ''script_failure'' \<rparr>,
             \<lparr> j_class = ProjectJob, j_id = 3, j_name = ''build'', j_stage = ''build'',
               j_status = ''failed'', j_tag_list = [], j_allow_failure = False,
               j_web_url = ''job/3'', j_created_at = 1, j_failure_reason = Some ''script_failure'' \<rparr> ],
         p_bridges = [] \<rparr>
     = Inr [ \<lparr> fs_name = ''lint'', fs_full_name = ''lint'', fs_id = 2, fs_stage = ''test'',
              fs_status = ''failed'', fs_tag_list = [], fs_allow_failure = False,
              fs_web_url = ''job/2'', fs_retry_summary = [''failed'', ''failed''],
              fs_failure_type = JOB_FAILURE, fs_failure_reason = FAILED_JOB_SCRIPT \<rparr>,
             \<lparr> fs_name = ''build'', fs_full_name = ''build'', fs_id = 3, fs_stage = ''build'',
              fs_status = ''failed'', fs_tag_list = [], fs_allow_failure = False,
              fs_web_url = ''job/3'', fs_retry_summary = [''failed''],
              fs_failure_type = JOB_FAILURE, fs_failure_reason = FAILED_JOB_SCRIPT \<rparr> ]
   \<and> \<not> isl (get_failed_jobs Map.empty (\<lambda>i. Inr ''exit status 1'')
       \<lparr> p_sha = ''abc'', p_web_url = ''pipeline/1'',
         p_jobs =
           [ \<lparr> j_class = ProjectJob, j_id = 3, j_name = ''build'', j_stage = ''build'',
               j_status = ''failed'', j_tag_list = [], j_allow_failure = False,
               j_web_url = ''job/3'', j_created_at = 1, j_failure_reason = Some ''script_failure'' \<rparr>,
             \<lparr> j_class = ProjectJob, j_id = 2, j_name = ''lint'', j_stage = ''test'',
               j_status = ''failed'', j_tag_list = [], j_allow_failure = False,
               j_web_url = ''job/2'', j_created_at = 2, j_failure_reason = Some ''script_failure'' \<rparr>,
             \<lparr> j_class = ProjectJob, j_id = 1, j_name = ''lint'', j_stage = ''test'',
               j_status = ''failed'', j_tag_list = [], j_allow_failure = False,
               j_web_url = ''job/1'', j_created_at = 1, j_failure_reason = Some ''script_failure'' \<rparr> ],
         p_bridges = [] \<rparr>)
   \<and> set (projr (get_failed_jobs Map.empty (\<lambda>i. Inr ''exit status 1'')
       \<lparr> p_sha = ''abc'', p_web_url = ''pipeline/1'',
         p_jobs =
           [ \<lparr> j_class = ProjectJob, j_id = 3, j_name = ''build'', j_stage = ''build'',
               j_status = ''failed'', j_tag_list = [], j_allow_failure = False,
               j_web_url = ''job/3'', j_created_at = 1, j_failure_reason = Some ''script_failure'' \<rparr>,
             \<lparr> j_class = ProjectJob, j_id = 2, j_name = ''lint'', j_stage = ''test'',
               j_status = ''failed'', j_tag_list = [], j_allow_failure = False,
               j_web_url = ''job/2'', j_created_at = 2, j_failure_reason = Some ''script_failure'' \<rparr>,
             \<lparr> j_class = ProjectJob, j_id = 1, j_name = ''lint'', j_stage = ''test'',
               j_status = ''failed'', j_tag_list = [], j_allow_failure = False,
               j_web_url = ''job/1'', j_created_at = 1, j_failure_reason = Some ''script_failure'' \<rparr> ],
         p_bridges = [] \<rparr>))
     = { \<lparr> fs_name = ''lint'', fs_full_name = ''lint'', fs_id = 2, fs_stage = ''test'',
              fs_status = ''failed'', fs_tag_list = [], fs_allow_failure = False,
              fs_web_url = ''job/2'', fs_retry_summary = [''failed'', ''failed''],
              fs_failure_type = JOB_FAILURE, fs_failure_reason = FAILED_JOB_SCRIPT \<rparr>,
         \<lparr> fs_name = ''build'', fs_full_name = ''build'', fs_id = 3, fs_stage = ''build'',
              fs_status = ''failed'', fs_tag_list = [], fs_allow_failure = False,
              fs_web_url = ''job/3'', fs_retry_summary = [''failed''],
              fs_failure_type = JOB_FAILURE, fs_failure_reason = FAILED_JOB_SCRIPT \<rparr> }"
  (is "?run \<and> ?defined \<and> ?same")
proof -
  let ?pl = "\<lparr> p_sha = ''abc'', p_web_url = ''pipeline/1'',
         p_jobs =
           [ \<lparr> j_class = ProjectJob, j_id = 1, j_name = ''lint'', j_stage = ''test'',
               j_status = ''failed'', j_tag_list = [], j_allow_failure = False,
               j_web_url = ''job/1'', j_created_at = 1, j_failure_reason = Some ''script_failure'' \<rparr>,
             \<lparr> j_class = ProjectJob, j_id = 2, j_name = ''lint'', j_stage = ''test'',
               j_status = ''failed'', j_tag_list = [], j_allow_failure = False,
               j_web_url = ''job/2'', j_created_at = 2, j_failure_reason = Some ''script_failure'' \<rparr>,
             \<lparr> j_class = ProjectJob, j_id = 3, j_name = ''build'', j_stage = ''build'',
               j_status = ''failed'', j_tag_list = [], j_allow_failure = False,
               j_web_url = ''job/3'', j_created_at = 1, j_failure_reason = Some ''script_failure'' \<rparr> ],
         p_bridges = [] \<rparr>"
  let ?pl' = "\<lparr> p_sha = ''abc'', p_web_url = ''pipeline/1'',
         p_jobs =
           [ \<lparr> j_class = ProjectJob, j_id = 3, j_name = ''build'', j_stage = ''build'',
               j_status = ''failed'', j_tag_list = [], j_allow_failure = False,
               j_web_url = ''job/3'', j_created_at = 1, j_failure_reason = Some ''script_failure'' \<rparr>,
             \<lparr> j_class = ProjectJob, j_id = 2, j_name = ''lint'', j_stage = ''test'',
               j_status = ''failed'', j_tag_list = [], j_allow_failure = False,
               j_web_url = ''job/2'', j_created_at = 2, j_failure_reason = Some ''script_failure'' \<rparr>,
             \<lparr> j_class = ProjectJob, j_id = 1, j_name = ''lint'', j_stage = ''test'',
               j_status = ''failed'', j_tag_list = [], j_allow_failure = False,
               j_web_url = ''job/1'', j_created_at = 1, j_failure_reason = Some ''script_failure'' \<rparr> ],
         p_bridges = [] \<rparr>"
  let ?e1 = "\<lparr> fs_name = ''lint'', fs_full_name = ''lint'', fs_id = 2, fs_stage = ''test'',
              fs_status = ''failed'', fs_tag_list = [], fs_allow_failure = False,
              fs_web_url = ''job/2'', fs_retry_summary = [''failed'', ''failed''],
              fs_failure_type = JOB_FAILURE, fs_failure_reason = FAILED_JOB_SCRIPT \<rparr>"
  let ?e2 = "\<lparr> fs_name = ''build'', fs_full_name = ''build'', fs_id = 3, fs_stage = ''build'',
              fs_status = ''failed'', fs_tag_list = [], fs_allow_failure = False,
              fs_web_url = ''job/3'', fs_retry_summary = [''failed''],
              fs_failure_type = JOB_FAILURE, fs_failure_reason = FAILED_JOB_SCRIPT \<rparr>"
  have run: ?run by code_simp
  have perm: "mset (p_jobs ?pl @ p_bridges ?pl) = mset (p_jobs ?pl' @ p_bridges ?pl')"
    by simp
  have times: "\<forall>a\<in>set (p_jobs ?pl @ p_bridges ?pl). \<forall>b\<in>set (p_jobs ?pl @ p_bridges ?pl).
      j_name a = j_name b \<and> j_created_at a = j_created_at b \<longrightarrow> a = b"
    by simp
  from retry_summary_permutation [OF perm run] times
  obtain report' where r: "get_failed_jobs Map.empty (\<lambda>i. Inr ''exit status 1'') ?pl' = Inr report'"
    "set report' = set [?e1, ?e2]"
    by blast
  from r have ?defined by simp
  moreover from r have ?same by simp
  ultimately show ?thesis using run by blast
qed

subsection \<open>Jobs skipped on the pull request\<close>

lemma scan_pr_jobs_eq:
  "scan_pr_jobs jobs failed_job generated missed_jobs =
     (if \<exists>job\<in>set jobs. j_name job = fs_full_name failed_job
            \<and> j_status job \<noteq> ''failed'' \<and> j_status job \<noteq> ''success''
      then (True, missed_jobs @ [fs_name failed_job])
      else (generated \<or> (\<exists>job\<in>set jobs. j_name job = fs_full_name failed_job), missed_jobs))"
  by (induction jobs arbitrary: generated) auto

lemma scan_failed_jobs_eq:
  "scan_failed_jobs jobs failed_jobs missed_jobs =
     missed_jobs @ map fs_name
       (filter (\<lambda>failed_job.
           (\<forall>job\<in>set jobs. j_name job \<noteq> fs_full_name failed_job)
           \<or> (\<exists>job\<in>set jobs. j_name job = fs_full_name failed_job
                 \<and> j_status job \<noteq> ''failed'' \<and> j_status job \<noteq> ''success''))
         failed_jobs)"
proof (induction failed_jobs arbitrary: missed_jobs)
  case Nil
  then show ?case by simp
next
  case (Cons failed_job rest)
  show ?case
    by (simp add: Cons.IH scan_pr_jobs_eq)
qed

text \<open>
  C8: when one pull request and a pipeline of its branch are found, each mandatory failure
  is compared with the jobs of that pipeline by \<open>full_name\<close>, with the equality of
  strings; it is counted as skipped exactly when no job has that name or some job of that
  name has a status that is neither \<open>failed\<close> nor \<open>success\<close>. So a failure all of
  whose namesakes are \<open>failed\<close> or \<open>success\<close> is not counted.
\<close>

theorem get_jobs_skipped_on_pr_matching:
  assumes "get_pulls (p_sha pipeline) = [pr]"
    and "pipelines_list (pr_head_ref pr) = pr_pipeline # older"
  shows "get_jobs_skipped_on_pr get_pulls pipelines_list pipeline all_mandatory_failures =
     ([],
      map fs_name
        (filter (\<lambda>failed_job.
            (\<forall>job\<in>set (p_jobs pr_pipeline @ p_bridges pr_pipeline).
                j_name job \<noteq> fs_full_name failed_job)
            \<or> (\<exists>job\<in>set (p_jobs pr_pipeline @ p_bridges pr_pipeline).
                  j_name job = fs_full_name failed_job
                  \<and> j_status job \<noteq> ''failed'' \<and> j_status job \<noteq> ''success''))
          all_mandatory_failures),
      p_web_url pr_pipeline)"
  using assms by (simp add: get_jobs_skipped_on_pr_def Let_def scan_failed_jobs_eq)

text \<open>
  The example of the spec: \<open>build:amd64\<close> is skipped when the pipeline of the pull
  request only has \<open>Build:amd64\<close>, and when it has \<open>build:amd64\<close> running; it is not
  when \<open>build:amd64\<close> succeeded there.
\<close>

theorem get_jobs_skipped_on_pr_matching_witness:
  "get_jobs_skipped_on_pr (\<lambda>sha. [\<lparr> pr_number = 17, pr_head_ref = ''feature'' \<rparr>])
       (\<lambda>ref. [\<lparr> p_sha = ''def'', p_web_url = ''pipeline/2'',
           p_jobs =
             [ \<lparr> j_class = ProjectJob, j_id = 11, j_name = ''Build:amd64'', j_stage = ''build'',
                 j_status = ''success'', j_tag_list = [], j_allow_failure = False,
                 j_web_url = ''job/11'', j_created_at = 1, j_failure_reason = None \<rparr> ],
           p_bridges = [] \<rparr>])
       \<lparr> p_sha = ''abc'', p_web_url = ''pipeline/1'',
           p_jobs =
             [ \<lparr> j_class = ProjectJob, j_id = 4, j_name = ''build:amd64'', j_stage = ''build'',
                 j_status = ''failed'', j_tag_list = [], j_allow_failure = False,
                 j_web_url = ''job/4'', j_created_at = 1, j_failure_reason = Some ''script_failure'' \<rparr> ],
           p_bridges = [] \<rparr>
       [ \<lparr> fs_name = ''build'', fs_full_name = ''build:amd64'', fs_id = 4, fs_stage = ''build'',
              fs_status = ''failed'', fs_tag_list = [], fs_allow_failure = False,
              fs_web_url = ''job/4'', fs_retry_summary = [''failed''],
              fs_failure_type = JOB_FAILURE, fs_failure_reason = FAILED_JOB_SCRIPT \<rparr> ]
     = ([], [''build''], ''pipeline/2'')
   \<and> get_jobs_skipped_on_pr (\<lambda>sha. [\<lparr> pr_number = 17, pr_head_ref = ''feature'' \<rparr>])
       (\<lambda>ref. [\<lparr> p_sha = ''def'', p_web_url = ''pipeline/3'',
           p_jobs =
             [ \<lparr> j_class = ProjectJob, j_id = 12, j_name = ''build:amd64'', j_stage = ''build'',
                 j_status = ''running'', j_tag_list = [], j_allow_failure = False,
                 j_web_url = ''job/12'', j_created_at = 1, j_failure_reason = None \<rparr> ],
           p_bridges = [] \<rparr>])
       \<lparr> p_sha = ''abc'', p_web_url = ''pipeline/1'',
           p_jobs =
             [ \<lparr> j_class = ProjectJob, j_id = 4, j_name = ''build:amd64'', j_stage = ''build'',
                 j_status = ''failed'', j_tag_list = [], j_allow_failure = False,
                 j_web_url = ''job/4'', j_created_at = 1, j_failure_reason = Some ''script_failure'' \<rparr> ],
           p_bridges = [] \<rparr>
       [ \<lparr> fs_name = ''build'', fs_full_name = ''build:amd64'', fs_id = 4, fs_stage = ''build'',
              fs_status = ''failed'', fs_tag_list = [], fs_allow_failure = False,
              fs_web_url = ''job/4'', fs_retry_summary = [''failed''],
              fs_failure_type = JOB_FAILURE, fs_failure_reason = FAILED_JOB_SCRIPT \<rparr> ]
     = ([], [''build''], ''pipeline/3'')
   \<and> get_jobs_skipped_on_pr (\<lambda>sha. [\<lparr> pr_number = 17, pr_head_ref = ''feature'' \<rparr>])
       (\<lambda>ref. [\<lparr> p_sha = ''def'', p_web_url = ''pipeline/4'',
           p_jobs =
             [ \<lparr> j_class = ProjectJob, j_id = 13, j_name = ''build:amd64'', j_stage = ''build'',
                 j_status = ''success'', j_tag_list = [], j_allow_failure = False,
                 j_web_url = ''job/13'', j_created_at = 1, j_failure_reason = None \<rparr> ],
           p_bridges = [] \<rparr>])
       \<lparr> p_sha = ''abc'', p_web_url = ''pipeline/1'',
           p_jobs =
             [ \<lparr> j_class = ProjectJob, j_id = 4, j_name = ''build:amd64'', j_stage = ''build'',
                 j_status = ''failed'', j_tag_list = [], j_allow_failure = False,
                 j_web_url = ''job/4'', j_created_at = 1, j_failure_reason = Some ''script_failure'' \<rparr> ],
           p_bridges = [] \<rparr>
       [ \<lparr> fs_name = ''build'', fs_full_name = ''build:amd64'', fs_id = 4, fs_stage = ''build'',
              fs_status = ''failed'', fs_tag_list = [], fs_allow_failure = False,
              fs_web_url = ''job/4'', fs_retry_summary = [''failed''],
              fs_failure_type = JOB_FAILURE, fs_failure_reason = FAILED_JOB_SCRIPT \<rparr> ]
     = ([], [], ''pipeline/4'')"
  (is "?absent \<and> ?running \<and> ?succeeded")
proof -
  let ?pr = "\<lparr> pr_number = 17, pr_head_ref = ''feature'' \<rparr>"
  let ?main = "\<lparr> p_sha = ''abc'', p_web_url = ''pipeline/1'',
           p_jobs =
             [ \<lparr> j_class = ProjectJob, j_id = 4, j_name = ''build:amd64'', j_stage = ''build'',
                 j_status = ''failed'', j_tag_list = [], j_allow_failure = False,
                 j_web_url = ''job/4'', j_created_at = 1, j_failure_reason = Some ''script_failure'' \<rparr> ],
           p_bridges = [] \<rparr>"
  let ?f = "\<lparr> fs_name = ''build'', fs_full_name = ''build:amd64'', fs_id = 4, fs_stage = ''build'',
              fs_status = ''failed'', fs_tag_list = [], fs_allow_failure = False,
              fs_web_url = ''job/4'', fs_retry_summary = [''failed''],
              fs_failure_type = JOB_FAILURE, fs_failure_reason = FAILED_JOB_SCRIPT \<rparr>"
  let ?a = "\<lparr> p_sha = ''def'', p_web_url = ''pipeline/2'',
           p_jobs =
             [ \<lparr> j_class = ProjectJob, j_id = 11, j_name = ''Build:amd64'', j_stage = ''build'',
                 j_status = ''success'', j_tag_list = [], j_allow_failure = False,
                 j_web_url = ''job/11'', j_created_at = 1, j_failure_reason = None \<rparr> ],
           p_bridges = [] \<rparr>"
  let ?b = "\<lparr> p_sha = ''def'', p_web_url = ''pipeline/3'',
           p_jobs =
             [ \<lparr> j_class = ProjectJob, j_id = 12, j_name = ''build:amd64'', j_stage = ''build'',
                 j_status = ''running'', j_tag_list = [], j_allow_failure = False,
                 j_web_url = ''job/12'', j_created_at = 1, j_failure_reason = None \<rparr> ],
           p_bridges = [] \<rparr>"
  let ?c = "\<lparr> p_sha = ''def'', p_web_url = ''pipeline/4'',
           p_jobs =
             [ \<lparr> j_class = ProjectJob, j_id = 13, j_name = ''build:amd64'', j_stage = ''build'',
                 j_status = ''success'', j_tag_list = [], j_allow_failure = False,
                 j_web_url = ''job/13'', j_created_at = 1, j_failure_reason = None \<rparr> ],
           p_bridges = [] \<rparr>"
  have ?absent
    using get_jobs_skipped_on_pr_matching [of "\<lambda>sha. [?pr]" ?main ?pr "\<lambda>ref. [?a]" ?a "[]" "[?f]"]
    by simp
  moreover have ?running
    using get_jobs_skipped_on_pr_matching [of "\<lambda>sha. [?pr]" ?main ?pr "\<lambda>ref. [?b]" ?b "[]" "[?f]"]
    by simp
  moreover have ?succeeded
    using get_jobs_skipped_on_pr_matching [of "\<lambda>sha. [?pr]" ?main ?pr "\<lambda>ref. [?c]" ?c "[]" "[?f]"]
    by simp
  ultimately show ?thesis by blast
qed

text \<open>
  C9: with no pull request, with more than one (after the warning is printed), or with
  one pull request whose branch has no pipeline (after the message is printed), the
  result is the empty list and the empty url. The function is total: it has no error
  result.
\<close>

theorem get_jobs_skipped_on_pr_no_correlation:
  "(get_pulls (p_sha pipeline) = [] \<longrightarrow>
      get_jobs_skipped_on_pr get_pulls pipelines_list pipeline all_mandatory_failures
        = ([], [], []))
   \<and> (length (get_pulls (p_sha pipeline)) > 1 \<longrightarrow>
      get_jobs_skipped_on_pr get_pulls pipelines_list pipeline all_mandatory_failures
        = ([MultiplePRsFound (p_sha pipeline) (map pr_number (get_pulls (p_sha pipeline)))],
           [], []))
   \<and> (get_pulls (p_sha pipeline) = [pr] \<and> pipelines_list (pr_head_ref pr) = [] \<longrightarrow>
      get_jobs_skipped_on_pr get_pulls pipelines_list pipeline all_mandatory_failures
        = ([NoPipelineFound (pr_head_ref pr)], [], []))"
  by (auto simp: get_jobs_skipped_on_pr_def Let_def)

theorem get_jobs_skipped_on_pr_no_correlation_witness:
  "get_jobs_skipped_on_pr (\<lambda>sha. [])
       (\<lambda>ref. [\<lparr> p_sha = ''def'', p_web_url = ''pipeline/3'',
           p_jobs =
             [ \<lparr> j_class = ProjectJob, j_id = 12, j_name = ''build:amd64'', j_stage = ''build'',
                 j_status = ''running'', j_tag_list = [], j_allow_failure = False,
                 j_web_url = ''job/12'', j_created_at = 1, j_failure_reason = None \<rparr> ],
           p_bridges = [] \<rparr>])
       \<lparr> p_sha = ''abc'', p_web_url = ''pipeline/1'',
           p_jobs =
             [ \<lparr> j_class = ProjectJob, j_id = 4, j_name = ''build:amd64'', j_stage = ''build'',
                 j_status = ''failed'', j_tag_list = [], j_allow_failure = False,
                 j_web_url = ''job/4'', j_created_at = 1, j_failure_reason = Some ''script_failure'' \<rparr> ],
           p_bridges = [] \<rparr>
       [ \<lparr> fs_name = ''build'', fs_full_name = ''build:amd64'', fs_id = 4, fs_stage = ''build'',
              fs_status = ''failed'', fs_tag_list = [], fs_allow_failure = False,
              fs_web_url = ''job/4'', fs_retry_summary = [''failed''],
              fs_failure_type = JOB_FAILURE, fs_failure_reason = FAILED_JOB_SCRIPT \<rparr> ]
     = ([], [], [])
   \<and> get_jobs_skipped_on_pr (\<lambda>sha. [\<lparr> pr_number = 17, pr_head_ref = ''feature'' \<rparr>, \<lparr> pr_number = 18, pr_head_ref = ''backport'' \<rparr>])
       (\<lambda>ref. [\<lparr> p_sha = ''def'', p_web_url = ''pipeline/3'',
           p_jobs =
             [ \<lparr> j_class = ProjectJob, j_id = 12, j_name = ''build:amd64'', j_stage = ''build'',
                 j_status = ''running'', j_tag_list = [], j_allow_failure = False,
                 j_web_url = ''job/12'', j_created_at = 1, j_failure_reason = None \<rparr> ],
           p_bridges = [] \<rparr>])
       \<lparr> p_sha = ''abc'', p_web_url = ''pipeline/1'',
           p_jobs =
             [ \<lparr> j_class = ProjectJob, j_id = 4, j_name = ''build:amd64'', j_stage = ''build'',
                 j_status = ''failed'', j_tag_list = [], j_allow_failure = False,
                 j_web_url = ''job/4'', j_created_at = 1, j_failure_reason = Some ''script_failure'' \<rparr> ],
           p_bridges = [] \<rparr>
       [ \<lparr> fs_name = ''build'', fs_full_name = ''build:amd64'', fs_id = 4, fs_stage = ''build'',
              fs_status = ''failed'', fs_tag_list = [], fs_allow_failure = False,
              fs_web_url = ''job/4'', fs_retry_summary = [''failed''],
              fs_failure_type = JOB_FAILURE, fs_failure_reason = FAILED_JOB_SCRIPT \<rparr> ]
     = ([MultiplePRsFound ''abc'' [17, 18]], [], [])
   \<and> get_jobs_skipped_on_pr (\<lambda>sha. [\<lparr> pr_number = 17, pr_head_ref = ''feature'' \<rparr>])
       (\<lambda>ref. [])
       \<lparr> p_sha = ''abc'', p_web_url = ''pipeline/1'',
           p_jobs =
             [ \<lparr> j_class = ProjectJob, j_id = 4, j_name = ''build:amd64'', j_stage = ''build'',
                 j_status = ''failed'', j_tag_list = [], j_allow_failure = False,
                 j_web_url = ''job/4'', j_created_at = 1, j_failure_reason = Some ''script_failure'' \<rparr> ],
           p_bridges = [] \<rparr>
       [ \<lparr> fs_name = ''build'', fs_full_name = ''build:amd64'', fs_id = 4, fs_stage = ''build'',
              fs_status = ''failed'', fs_tag_list = [], fs_allow_failure = False,
              fs_web_url = ''job/4'', fs_retry_summary = [''failed''],
              fs_failure_type = JOB_FAILURE, fs_failure_reason = FAILED_JOB_SCRIPT \<rparr> ]
     = ([NoPipelineFound ''feature''], [], [])"
  (is "?none \<and> ?several \<and> ?nopipeline")
proof -
  let ?pr = "\<lparr> pr_number = 17, pr_head_ref = ''feature'' \<rparr>"
  let ?pr2 = "\<lparr> pr_number = 18, pr_head_ref = ''backport'' \<rparr>"
  let ?main = "\<lparr> p_sha = ''abc'', p_web_url = ''pipeline/1'',
           p_jobs =
             [ \<lparr> j_class = ProjectJob, j_id = 4, j_name = ''build:amd64'', j_stage = ''build'',
                 j_status = ''failed'', j_tag_list = [], j_allow_failure = False,
                 j_web_url = ''job/4'', j_created_at = 1, j_failure_reason = Some ''script_failure'' \<rparr> ],
           p_bridges = [] \<rparr>"
  let ?f = "\<lparr> fs_name = ''build'', fs_full_name = ''build:amd64'', fs_id = 4, fs_stage = ''build'',
              fs_status = ''failed'', fs_tag_list = [], fs_allow_failure = False,
              fs_web_url = ''job/4'', fs_retry_summary = [''failed''],
              fs_failure_type = JOB_FAILURE, fs_failure_reason = FAILED_JOB_SCRIPT \<rparr>"
  let ?b = "\<lparr> p_sha = ''def'', p_web_url = ''pipeline/3'',
           p_jobs =
             [ \<lparr> j_class = ProjectJob, j_id = 12, j_name = ''build:amd64'', j_stage = ''build'',
                 j_status = ''running'', j_tag_list = [], j_allow_failure = False,
                 j_web_url = ''job/12'', j_created_at = 1, j_failure_reason = None \<rparr> ],
           p_bridges = [] \<rparr>"
  have ?none
    using get_jobs_skipped_on_pr_no_correlation
      [of "\<lambda>sha. []" ?main "\<lambda>ref. [?b]" "[?f]" ?pr]
    by simp
  moreover have ?several
    using get_jobs_skipped_on_pr_no_correlation
      [of "\<lambda>sha. [?pr, ?pr2]" ?main "\<lambda>ref. [?b]" "[?f]" ?pr]
    by simp
  moreover have ?nopipeline
    using get_jobs_skipped_on_pr_no_correlation
      [of "\<lambda>sha. [?pr]" ?main "\<lambda>ref. []" "[?f]" ?pr]
    by simp
  ultimately show ?thesis by blast
qed

text \<open>
  C10: every name in the list of skipped jobs is the \<open>name\<close> of a mandatory failure,
  which for an entry of a report of \<open>get_failed_jobs\<close> is its \<open>full_name\<close> truncated,
  not the \<open>full_name\<close> that was compared.
\<close>

theorem skipped_names_are_truncated:
  assumes "get_failed_jobs mapping trace failed_pipeline = Inr report"
    and "set all_mandatory_failures \<subseteq> set report"
  shows "set (fst (snd (get_jobs_skipped_on_pr get_pulls pipelines_list pipeline
                          all_mandatory_failures)))
           \<subseteq> (\<lambda>failed_job. truncate_job_name (fs_full_name failed_job) 48)
               ` set all_mandatory_failures
         \<and> (\<forall>failed_job\<in>set all_mandatory_failures.
              fs_name failed_job = truncate_job_name (fs_full_name failed_job) 48)"
proof -
  have names: "fs_name failed_job = truncate_job_name (fs_full_name failed_job) 48"
    if "failed_job \<in> set all_mandatory_failures" for failed_job
  proof -
    from that assms(2) have "failed_job \<in> set report" by blast
    then obtain n t js where "failed_job = group_final_status mapping n js t"
      using report_entry_iff [OF assms(1), of failed_job] by blast
    then show ?thesis by (simp add: group_final_status_simps)
  qed
  have "set (fst (snd (get_jobs_skipped_on_pr get_pulls pipelines_list pipeline
                          all_mandatory_failures)))
          \<subseteq> fs_name ` set all_mandatory_failures"
    by (auto simp: get_jobs_skipped_on_pr_def Let_def scan_failed_jobs_eq)
  with names show ?thesis by force
qed

text \<open>
  \<open>build:amd64\<close> and \<open>build:arm64\<close> are both reported under the name \<open>build\<close>,
  and the list of skipped jobs holds \<open>build\<close> twice.
\<close>

theorem skipped_names_are_truncated_witness:
  "get_failed_jobs Map.empty (\<lambda>i. Inr ''exit status 1'')
       \<lparr> p_sha = ''abc'', p_web_url = ''pipeline/1'',
           p_jobs =
             [ \<lparr> j_class = ProjectJob, j_id = 4, j_name = ''build:amd64'', j_stage = ''build'',
                 j_status = ''failed'', j_tag_list = [], j_allow_failure = False,
                 j_web_url = ''job/4'', j_created_at = 1, j_failure_reason = Some ''script_failure'' \<rparr>,
               \<lparr> j_class = ProjectJob, j_id = 5, j_name = ''build:arm64'', j_stage = ''build'',
                 j_status = ''failed'', j_tag_list = [], j_allow_failure = False,
                 j_web_url = ''job/5'', j_created_at = 1, j_failure_reason = Some ''script_failure'' \<rparr> ],
           p_bridges = [] \<rparr>
     = Inr [ \<lparr> fs_name = ''build'', fs_full_name = ''build:amd64'', fs_id = 4, fs_stage = ''build'',
              fs_status = ''failed'', fs_tag_list = [], fs_allow_failure = False,
              fs_web_url = ''job/4'', fs_retry_summary = [''failed''],
              fs_failure_type = JOB_FAILURE, fs_failure_reason = FAILED_JOB_SCRIPT \<rparr>,
             \<lparr> fs_name = ''build'', fs_full_name = ''build:arm64'', fs_id = 5, fs_stage = ''build'',
              fs_status = ''failed'', fs_tag_list = [], fs_allow_failure = False,
              fs_web_url = ''job/5'', fs_retry_summary = [''failed''],
              fs_failure_type = JOB_FAILURE, fs_failure_reason = FAILED_JOB_SCRIPT \<rparr> ]
   \<and> truncate_job_name ''build:amd64'' 48 = ''build''
   \<and> truncate_job_name ''build:arm64'' 48 = ''build''
   \<and> fst (snd (get_jobs_skipped_on_pr (\<lambda>sha. [\<lparr> pr_number = 17, pr_head_ref = ''feature'' \<rparr>])
       (\<lambda>ref. [\<lparr> p_sha = ''def'', p_web_url = ''pipeline/5'',
           p_jobs =
             [ \<lparr> j_class = ProjectJob, j_id = 14, j_name = ''lint'', j_stage = ''test'',
                 j_status = ''success'', j_tag_list = [], j_allow_failure = False,
                 j_web_url = ''job/14'', j_created_at = 1, j_failure_reason = None \<rparr> ],
           p_bridges = [] \<rparr>])
       \<lparr> p_sha = ''abc'', p_web_url = ''pipeline/1'',
           p_jobs =
             [ \<lparr> j_class = ProjectJob, j_id = 4, j_name = ''build:amd64'', j_stage = ''build'',
                 j_status = ''failed'', j_tag_list = [], j_allow_failure = False,
                 j_web_url = ''job/4'', j_created_at = 1, j_failure_reason = Some ''script_failure'' \<rparr>,
               \<lparr> j_class = ProjectJob, j_id = 5, j_name = ''build:arm64'', j_stage = ''build'',
                 j_status = ''failed'', j_tag_list = [], j_allow_failure = False,
                 j_web_url = ''job/5'', j_created_at = 1, j_failure_reason = Some ''script_failure'' \<rparr> ],
           p_bridges = [] \<rparr>
       [ \<lparr> fs_name = ''build'', fs_full_name = ''build:amd64'', fs_id = 4, fs_stage = ''build'',
              fs_status = ''failed'', fs_tag_list = [], fs_allow_failure = False,
              fs_web_url = ''job/4'', fs_retry_summary = [''failed''],
              fs_failure_type = JOB_FAILURE, fs_failure_reason = FAILED_JOB_SCRIPT \<rparr>,
         \<lparr> fs_name = ''build'', fs_full_name = ''build:arm64'', fs_id = 5, fs_stage = ''build'',
              fs_status = ''failed'', fs_tag_list = [], fs_allow_failure = False,
              fs_web_url = ''job/5'', fs_retry_summary = [''failed''],
              fs_failure_type = JOB_FAILURE, fs_failure_reason = FAILED_JOB_SCRIPT \<rparr> ]))
     = [''build'', ''build'']"
  (is "?run \<and> ?amd \<and> ?arm \<and> ?skipped")
proof -
  let ?pl = "\<lparr> p_sha = ''abc'', p_web_url = ''pipeline/1'',
           p_jobs =
             [ \<lparr> j_class = ProjectJob, j_id = 4, j_name = ''build:amd64'', j_stage = ''build'',
                 j_status = ''failed'', j_tag_list = [], j_allow_failure = False,
                 j_web_url = ''job/4'', j_created_at = 1, j_failure_reason = Some ''script_failure'' \<rparr>,
               \<lparr> j_class = ProjectJob, j_id = 5, j_name = ''build:arm64'', j_stage = ''build'',
                 j_status = ''failed'', j_tag_list = [], j_allow_failure = False,
                 j_web_url = ''job/5'', j_created_at = 1, j_failure_reason = Some ''script_failure'' \<rparr> ],
           p_bridges = [] \<rparr>"
  let ?e1 = "\<lparr> fs_name = ''build'', fs_full_name = ''build:amd64'', fs_id = 4, fs_stage = ''build'',
              fs_status = ''failed'', fs_tag_list = [], fs_allow_failure = False,
              fs_web_url = ''job/4'', fs_retry_summary = [''failed''],
              fs_failure_type = JOB_FAILURE, fs_failure_reason = FAILED_JOB_SCRIPT \<rparr>"
  let ?e2 = "\<lparr> fs_name = ''build'', fs_full_name = ''build:arm64'', fs_id = 5, fs_stage = ''build'',
              fs_status = ''failed'', fs_tag_list = [], fs_allow_failure = False,
              fs_web_url = ''job/5'', fs_retry_summary = [''failed''],
              fs_failure_type = JOB_FAILURE, fs_failure_reason = FAILED_JOB_SCRIPT \<rparr>"
  have run: ?run by code_simp
  have sub: "set [?e1, ?e2] \<subseteq> set [?e1, ?e2]" by blast
  have names: "\<forall>failed_job\<in>set [?e1, ?e2].
      fs_name failed_job = truncate_job_name (fs_full_name failed_job) 48"
    using skipped_names_are_truncated [OF run sub] by blast
  have "?e1 \<in> set [?e1, ?e2]" by simp
  with names have "fs_name ?e1 = truncate_job_name (fs_full_name ?e1) 48" by blast
  then have amd: ?amd by simp
  have "?e2 \<in> set [?e1, ?e2]" by simp
  with names have "fs_name ?e2 = truncate_job_name (fs_full_name ?e2) 48" by blast
  then have arm: ?arm by simp
  have ?skipped by code_simp
  with run amd arm show ?thesis by blast
qed

end
